theory Spec2Isabelle
  imports Main "HOL-Library.Word"
begin

unbundle bit_operations_syntax

chapter \<open>The model\<close>

section \<open>hmap.h: usage-map rows\<close>

text \<open>
  The symbolic constants of the evdev headers (\<open>EV_KEY\<close>, \<open>ABS_X\<close>,
  \<open>INPUT_PROP_DIRECT\<close>, ...) are declared outside the three source files. Only their
  identity matters below, so each family is a datatype of the names the sources use.
\<close>

datatype ev_type = EV_KEY | EV_REL | EV_ABS | EV_PWR

datatype evdev_code =
    ABS_X | ABS_Y | ABS_PRESSURE | ABS_TILT_X | ABS_TILT_Y
  | BTN_TOUCH | BTN_TOOL_PEN | BTN_STYLUS | BTN_TOOL_RUBBER | BTN_STYLUS2
  | REL_X | REL_Y | BTN_LEFT

datatype input_prop = INPUT_PROP_POINTER | INPUT_PROP_DIRECT

text \<open>
  The usage pages and usage ids that hpen.c names are integer constants of the HID
  headers, outside the three source files; their values are those of the HID Usage
  Tables. Two of them are equal numbers: \<open>HUG_X\<close> and \<open>HUD_TIP_PRESSURE\<close> are both
  \<open>0x30\<close>.
\<close>

definition HUP_GENERIC_DESKTOP :: int where "HUP_GENERIC_DESKTOP = 0x0001"

definition HUP_DIGITIZERS :: int where "HUP_DIGITIZERS = 0x000d"

definition HUG_X :: int where "HUG_X = 0x30"

definition HUG_Y :: int where "HUG_Y = 0x31"

definition HUD_TIP_PRESSURE :: int where "HUD_TIP_PRESSURE = 0x30"

definition HUD_IN_RANGE :: int where "HUD_IN_RANGE = 0x32"

definition HUD_TOUCH :: int where "HUD_TOUCH = 0x33"

definition HUD_BATTERY_STRENGTH :: int where "HUD_BATTERY_STRENGTH = 0x3b"

definition HUD_INVERT :: int where "HUD_INVERT = 0x3c"

definition HUD_X_TILT :: int where "HUD_X_TILT = 0x3d"

definition HUD_Y_TILT :: int where "HUD_Y_TILT = 0x3e"

definition HUD_TIP_SWITCH :: int where "HUD_TIP_SWITCH = 0x42"

definition HUD_SEC_TIP_SWITCH :: int where "HUD_SEC_TIP_SWITCH = 0x43"

definition HUD_BARREL_SWITCH :: int where "HUD_BARREL_SWITCH = 0x44"

definition HUD_ERASER :: int where "HUD_ERASER = 0x45"

definition HUD_TABLET_PICK :: int where "HUD_TABLET_PICK = 0x46"

definition HUD_SEC_BARREL_SWITCH :: int where "HUD_SEC_BARREL_SWITCH = 0x5a"

text \<open>
  A HID usage is an \<open>int32_t\<close>, the page in its upper 16 bits:
  \<open>HID_USAGE2(p, u)\<close> is \<open>(p << 16) | u\<close>.
\<close>

type_synonym hid_usage = int

definition HID_USAGE2 :: "int \<Rightarrow> int \<Rightarrow> hid_usage" where
  "HID_USAGE2 p u = push_bit 16 p OR u"

text \<open>
  The \<open>char *\<close> of a row's \<open>name\<close>: \<open>NULL\<close>, a string literal, or an integer
  constant that an initializer stores in the pointer.
\<close>

datatype char_ptr = Null_ptr | String_literal string | Int_constant int

text \<open>\<open>enum hmap_relabs\<close>.\<close>

datatype hmap_relabs = HMAP_RELABS_ANY | HMAP_RELATIVE | HMAP_ABSOLUTE

text \<open>
  \<open>struct hmap_item\<close>. The anonymous union of \<open>{type, code}\<close> and \<open>cb\<close> is the
  datatype \<open>hmap_payload\<close>; a field no designated initializer names is zero in C:
  \<open>required = false\<close>, \<open>relabs = HMAP_RELABS_ANY\<close>, \<open>has_cb = false\<close>, \<open>name = NULL\<close>
  and no usage (\<open>None\<close>).
\<close>

datatype 'cb hmap_payload = Event ev_type evdev_code | Callback 'cb

record 'cb hmap_item =
  name :: char_ptr
  usage :: "hid_usage option"
  payload :: "'cb hmap_payload"
  required :: bool
  relabs :: hmap_relabs
  has_cb :: bool

definition HMAP_KEY :: "char_ptr \<Rightarrow> hid_usage \<Rightarrow> evdev_code \<Rightarrow> 'cb hmap_item" where
  "HMAP_KEY n u c =
     \<lparr>name = n, usage = Some u, payload = Event EV_KEY c,
      required = False, relabs = HMAP_RELABS_ANY, has_cb = False\<rparr>"

definition HMAP_REL :: "char_ptr \<Rightarrow> hid_usage \<Rightarrow> evdev_code \<Rightarrow> 'cb hmap_item" where
  "HMAP_REL n u c =
     \<lparr>name = n, usage = Some u, payload = Event EV_REL c,
      required = False, relabs = HMAP_RELATIVE, has_cb = False\<rparr>"

definition HMAP_ABS :: "char_ptr \<Rightarrow> hid_usage \<Rightarrow> evdev_code \<Rightarrow> 'cb hmap_item" where
  "HMAP_ABS n u c =
     \<lparr>name = n, usage = Some u, payload = Event EV_ABS c,
      required = False, relabs = HMAP_ABSOLUTE, has_cb = False\<rparr>"

definition HMAP_ANY_CB :: "char_ptr \<Rightarrow> hid_usage \<Rightarrow> 'cb \<Rightarrow> 'cb hmap_item" where
  "HMAP_ANY_CB n u f =
     \<lparr>name = n, usage = Some u, payload = Callback f,
      required = False, relabs = HMAP_RELABS_ANY, has_cb = True\<rparr>"

definition HMAP_REL_CB :: "char_ptr \<Rightarrow> hid_usage \<Rightarrow> 'cb \<Rightarrow> 'cb hmap_item" where
  "HMAP_REL_CB n u f = (HMAP_ANY_CB n u f)\<lparr>relabs := HMAP_RELATIVE\<rparr>"

definition HMAP_ABS_CB :: "char_ptr \<Rightarrow> hid_usage \<Rightarrow> 'cb \<Rightarrow> 'cb hmap_item" where
  "HMAP_ABS_CB n u f = (HMAP_ANY_CB n u f)\<lparr>relabs := HMAP_ABSOLUTE\<rparr>"

text \<open>
  Modelled from the spec: the macro \<open>HMAP_COMPL_CB\<close>, which hpen.c uses with one
  argument and hmap.h does not define. The spec's completion row "has \<open>has_cb\<close> set and
  no usage"; the other fields are those of a zero-initialised \<open>struct hmap_item\<close>.
\<close>

definition HMAP_COMPL_CB :: "'cb \<Rightarrow> 'cb hmap_item" where
  "HMAP_COMPL_CB f =
     \<lparr>name = Null_ptr, usage = None, payload = Callback f,
      required = False, relabs = HMAP_RELABS_ANY, has_cb = True\<rparr>"

definition is_completion :: "'cb hmap_item \<Rightarrow> bool" where
  "is_completion mi = (has_cb mi \<and> usage mi = None)"

subsection \<open>Capability bitstrings\<close>

text \<open>
  A \<open>bitstr_t\<close> array declared by \<open>HMAP_CAPS(name, map)\<close> holds one bit per map row;
  it is the list of its bits, bit 0 first. \<open>bit_test\<close> and \<open>bit_count\<close> are the
  macros of \<open>sys/bitstring.h\<close>, which is not among the sources: \<open>bit_count(bitstr,
  start, nbits, &result)\<close> counts the bits set in a bitstring of size \<open>nbits\<close> at or
  after \<open>start\<close>, and gives 0 when \<open>start >= nbits\<close>. C's \<open>int\<close> is \<open>int\<close>; the
  positions a claim speaks of stay far from its bounds.
\<close>

type_synonym bitstr_t = "bool list"

definition bit_test :: "bitstr_t \<Rightarrow> int \<Rightarrow> bool" where
  "bit_test caps b = (0 \<le> b \<and> nat b < length caps \<and> caps ! nat b)"

definition bit_count :: "bitstr_t \<Rightarrow> int \<Rightarrow> int \<Rightarrow> int" where
  "bit_count caps start nbits =
     (if start \<ge> nbits then 0
      else int (length (filter (\<lambda>i. bit_test caps i) [start .. nbits - 1])))"

definition hmap_test_cap :: "bitstr_t \<Rightarrow> int \<Rightarrow> bool" where
  "hmap_test_cap caps cap = bit_test caps cap"

definition hmap_count_caps :: "bitstr_t \<Rightarrow> int \<Rightarrow> int \<Rightarrow> int" where
  "hmap_count_caps caps first_bit last_bit = bit_count caps first_bit (last_bit + 1)"

subsection \<open>Callbacks\<close>

text \<open>
  The evdev sink (\<open>struct evdev_dev\<close>, outside the sources) is the list of the
  announcement calls it has received. Of \<open>struct hmap_softc\<close> the callbacks of hpen.c
  reach the sink only.
\<close>

datatype evdev_call = Support_event ev_type | Support_prop input_prop

type_synonym evdev_dev = "evdev_call list"

definition evdev_support_event :: "evdev_dev \<Rightarrow> ev_type \<Rightarrow> evdev_dev" where
  "evdev_support_event ev t = ev @ [Support_event t]"

definition evdev_support_prop :: "evdev_dev \<Rightarrow> input_prop \<Rightarrow> evdev_dev" where
  "evdev_support_prop ev p = ev @ [Support_prop p]"

record hmap_softc =
  evdev :: evdev_dev

datatype hmap_type =
  HMAP_TYPE_CALLBACK | HMAP_TYPE_VARIABLE | HMAP_TYPE_ARR_LIST | HMAP_TYPE_ARR_RANGE

record hmap_hid_item =
  item_id :: "8 word"
  item_type :: hmap_type
  is_signed :: bool

text \<open>
  A callback takes \<open>HMAP_CB_ARGS\<close>, that is \<open>struct hmap_softc *sc\<close>,
  \<open>struct hmap_hid_item *hi\<close> and \<open>intptr_t ctx\<close>, with \<open>hi\<close> \<open>None\<close> for \<open>NULL\<close>; it
  gives the device state it leaves and the \<open>int\<close> it returns. The result type is that
  of the callbacks hpen.c defines (\<open>static int f(HMAP_CB_ARGS)\<close>, each ending in a
  \<open>return\<close> of a value); the \<open>typedef\<close> of hmap.h writes \<open>void\<close> there.
\<close>

type_synonym hmap_cb_t = "hmap_softc \<Rightarrow> hmap_hid_item option \<Rightarrow> int \<Rightarrow> hmap_softc \<times> int"

text \<open>
  Modelled from the spec: the macros \<open>HMAP_CB_GET_STATE\<close>, \<open>HMAP_CB_IS_ATTACHING\<close> and
  \<open>HMAP_CB_IS_RUNNING\<close>, which hpen.c uses and hmap.h does not define. The spec derives
  the "attaching vs running" flag from \<open>hi == NULL\<close>, as \<open>HMAP_IS_ATTACHING\<close> of hmap.h
  does. \<open>HMAP_CB_GET_EVDEV()\<close> is the \<open>evdev\<close> field of the device state.
\<close>

datatype hmap_cb_state = HMAP_CB_IS_ATTACHING | HMAP_CB_IS_RUNNING

definition HMAP_CB_GET_STATE :: "hmap_hid_item option \<Rightarrow> hmap_cb_state" where
  "HMAP_CB_GET_STATE hi = (if hi = None then HMAP_CB_IS_ATTACHING else HMAP_CB_IS_RUNNING)"

text \<open>\<open>ENOSYS\<close> of \<open>errno.h\<close> (FreeBSD).\<close>

definition ENOSYS :: int where
  "ENOSYS = 78"

section \<open>hpen.c\<close>

definition hpen_battery_strenght_cb :: hmap_cb_t where
  "hpen_battery_strenght_cb sc hi ctx =
     (case HMAP_CB_GET_STATE hi of
        HMAP_CB_IS_ATTACHING \<Rightarrow> (sc\<lparr>evdev := evdev_support_event (evdev sc) EV_PWR\<rparr>, 0)
      | HMAP_CB_IS_RUNNING \<Rightarrow> (sc, 0))"

definition hpen_compl_digi_cb :: hmap_cb_t where
  "hpen_compl_digi_cb sc hi ctx =
     (let sc' = (if HMAP_CB_GET_STATE hi = HMAP_CB_IS_ATTACHING
                 then sc\<lparr>evdev := evdev_support_prop (evdev sc) INPUT_PROP_POINTER\<rparr>
                 else sc)
      in (sc', ENOSYS))"

definition hpen_compl_pen_cb :: hmap_cb_t where
  "hpen_compl_pen_cb sc hi ctx =
     (let sc' = (if HMAP_CB_GET_STATE hi = HMAP_CB_IS_ATTACHING
                 then sc\<lparr>evdev := evdev_support_prop (evdev sc) INPUT_PROP_DIRECT\<rparr>
                 else sc)
      in (sc', ENOSYS))"

text \<open>
  The row macros of hpen.c, each expanded as hmap.h defines the \<open>HMAP_\<close> macro it
  calls. \<open>HPEN_MAP_ABS(usage, code)\<close> is \<open>HMAP_ABS(HUP_DIGITIZERS, HUD_##usage, code)\<close>,
  and \<open>HMAP_ABS(_name, _usage, _code)\<close> stores its first argument in \<open>name\<close> and its
  second in \<open>usage\<close>: the row's \<open>name\<close> is the page constant and its \<open>usage\<close> the
  usage id without a page. The argument \<open>u\<close> is the pasted constant \<open>HUD_##usage\<close>
  (\<open>HUG_##usage\<close> for \<open>HPEN_MAP_ABS_GD\<close>).
\<close>

definition HPEN_MAP_BUT :: "int \<Rightarrow> evdev_code \<Rightarrow> hmap_cb_t hmap_item" where
  "HPEN_MAP_BUT u c = HMAP_KEY (Int_constant HUP_DIGITIZERS) u c"

definition HPEN_MAP_ABS :: "int \<Rightarrow> evdev_code \<Rightarrow> hmap_cb_t hmap_item" where
  "HPEN_MAP_ABS u c = HMAP_ABS (Int_constant HUP_DIGITIZERS) u c"

definition HPEN_MAP_ABS_GD :: "int \<Rightarrow> evdev_code \<Rightarrow> hmap_cb_t hmap_item" where
  "HPEN_MAP_ABS_GD u c = HMAP_ABS (Int_constant HUP_GENERIC_DESKTOP) u c"

definition HPEN_MAP_ABS_CB :: "int \<Rightarrow> hmap_cb_t \<Rightarrow> hmap_cb_t hmap_item" where
  "HPEN_MAP_ABS_CB u f = HMAP_ABS_CB (Int_constant HUP_DIGITIZERS) u f"

definition hpen_map_digi :: "hmap_cb_t hmap_item list" where
  "hpen_map_digi =
    [ (HPEN_MAP_ABS_GD HUG_X ABS_X)\<lparr>required := True\<rparr>,
      (HPEN_MAP_ABS_GD HUG_Y ABS_Y)\<lparr>required := True\<rparr>,
      HPEN_MAP_ABS HUD_TIP_PRESSURE ABS_PRESSURE,
      HPEN_MAP_ABS HUD_X_TILT ABS_TILT_X,
      HPEN_MAP_ABS HUD_Y_TILT ABS_TILT_Y,
      HPEN_MAP_ABS_CB HUD_BATTERY_STRENGTH hpen_battery_strenght_cb,
      HPEN_MAP_BUT HUD_TOUCH BTN_TOUCH,
      HPEN_MAP_BUT HUD_TIP_SWITCH BTN_TOUCH,
      HPEN_MAP_BUT HUD_SEC_TIP_SWITCH BTN_TOUCH,
      HPEN_MAP_BUT HUD_IN_RANGE BTN_TOOL_PEN,
      HPEN_MAP_BUT HUD_BARREL_SWITCH BTN_STYLUS,
      HPEN_MAP_BUT HUD_INVERT BTN_TOOL_RUBBER,
      HPEN_MAP_BUT HUD_ERASER BTN_TOUCH,
      HPEN_MAP_BUT HUD_TABLET_PICK BTN_STYLUS2,
      HPEN_MAP_BUT HUD_SEC_BARREL_SWITCH BTN_STYLUS2,
      HMAP_COMPL_CB hpen_compl_digi_cb ]"

definition hpen_map_pen :: "hmap_cb_t hmap_item list" where
  "hpen_map_pen =
    [ (HPEN_MAP_ABS_GD HUG_X ABS_X)\<lparr>required := True\<rparr>,
      (HPEN_MAP_ABS_GD HUG_Y ABS_Y)\<lparr>required := True\<rparr>,
      (HPEN_MAP_ABS HUD_TIP_PRESSURE ABS_PRESSURE)\<lparr>required := True\<rparr>,
      HPEN_MAP_ABS HUD_X_TILT ABS_TILT_X,
      HPEN_MAP_ABS HUD_Y_TILT ABS_TILT_Y,
      HPEN_MAP_ABS_CB HUD_BATTERY_STRENGTH hpen_battery_strenght_cb,
      (HPEN_MAP_BUT HUD_TIP_SWITCH BTN_TOUCH)\<lparr>required := True\<rparr>,
      (HPEN_MAP_BUT HUD_IN_RANGE BTN_TOOL_PEN)\<lparr>required := True\<rparr>,
      HPEN_MAP_BUT HUD_BARREL_SWITCH BTN_STYLUS,
      (HPEN_MAP_BUT HUD_INVERT BTN_TOOL_RUBBER)\<lparr>required := True\<rparr>,
      (HPEN_MAP_BUT HUD_ERASER BTN_TOUCH)\<lparr>required := True\<rparr>,
      HMAP_COMPL_CB hpen_compl_pen_cb ]"

text \<open>
  \<open>hpen_attach\<close>. The quirk test, the transport's \<open>hid_set_report\<close>, the debug print and
  \<open>hmap_attach\<close> (hmap.c) are outside the sources: they are the operations \<open>ops\<close> on a
  world \<open>'w\<close> that the function threads through its calls in program order.
\<close>

datatype hid_report_type = HID_INPUT_REPORT | HID_OUTPUT_REPORT | HID_FEATURE_REPORT

record 'w hpen_ops =
  hid_test_quirk_GRAPHIRE3_4X5 :: "'w \<Rightarrow> bool"
  hid_set_report :: "'w \<Rightarrow> 8 word list \<Rightarrow> nat \<Rightarrow> hid_report_type \<Rightarrow> 8 word \<Rightarrow> 'w \<times> int"
  DPRINTF :: "'w \<Rightarrow> string \<Rightarrow> int \<Rightarrow> 'w"
  hmap_attach_op :: "'w \<Rightarrow> 'w \<times> int"

definition reportbuf :: "8 word list" where
  "reportbuf = [2, 2, 2]"

definition hpen_attach :: "'w hpen_ops \<Rightarrow> 'w \<Rightarrow> 'w \<times> int" where
  "hpen_attach ops w =
     (if hid_test_quirk_GRAPHIRE3_4X5 ops w
      then (let (w1, error) =
                  hid_set_report ops w reportbuf (length reportbuf) HID_FEATURE_REPORT (reportbuf ! 0);
                w2 = (if error \<noteq> 0
                      then DPRINTF ops w1 ''set feature report failed, error=%d (ignored)'' error
                      else w1)
            in hmap_attach_op ops w2)
      else hmap_attach_op ops w)"

section \<open>The resolver and the attach controller\<close>

text \<open>
  Modelled from the spec: the parsed input items that the report-descriptor parser hands
  to the resolver (spec 3, "Location"); the parser is not among the sources. The spec's
  \<open>is_signed\<close> is \<open>logical_min < 0\<close> and is not stored.
\<close>

record location =
  loc_report_id :: nat
  loc_bit_offset :: nat
  loc_bit_width :: nat
  loc_count :: nat
  logical_min :: int
  logical_max :: int

text \<open>
  Modelled from the spec: the three kinds of parsed input item (spec 3, "Parsed input
  item").
\<close>

datatype usage_kind =
    Variable hid_usage
  | ArrayList "hid_usage list"
  | ArrayRange hid_usage hid_usage

text \<open>
  Modelled from the spec: a parsed input item, its location and usage kind; \<open>relative\<close>
  is bit 2 of the Input item's flags (spec 4.1, step 1).
\<close>

record parsed_item =
  location :: location
  usage_kind :: usage_kind
  relative :: bool

text \<open>
  Modelled from the spec: "\<open>HMAP_RELABS_ANY\<close> admits both; \<open>HMAP_RELATIVE\<close> and
  \<open>HMAP_ABSOLUTE\<close> require exact match" (spec 4.2, rule 1).
\<close>

fun relabs_admits :: "hmap_relabs \<Rightarrow> bool \<Rightarrow> bool" where
  "relabs_admits HMAP_RELABS_ANY rel = True"
| "relabs_admits HMAP_RELATIVE rel = rel"
| "relabs_admits HMAP_ABSOLUTE rel = (\<not> rel)"

text \<open>
  Modelled from the spec: a Variable item with usage \<open>u\<close> matches a row whose usage is
  \<open>u\<close> and whose \<open>relabs\<close> admits the item's flag; a callback row matches the same
  way (rules 1 and 3). An Array item matches no row by the scan (rule 2), and a
  completion row, which has no usage, matches no item (rule 4).
\<close>

definition row_matches :: "'cb hmap_item \<Rightarrow> parsed_item \<Rightarrow> bool" where
  "row_matches mi it =
     (case usage_kind it of
        Variable u \<Rightarrow> usage mi = Some u \<and> relabs_admits (relabs mi) (relative it)
      | ArrayList us \<Rightarrow> False
      | ArrayRange lo hi \<Rightarrow> False)"

text \<open>
  Modelled from the spec: an item matches "the first map row" that admits it, "ties
  broken by map order". The result is the index of that row.
\<close>

fun hmap_match :: "'cb hmap_item list \<Rightarrow> parsed_item \<Rightarrow> nat option" where
  "hmap_match [] it = None"
| "hmap_match (mi # rows) it =
     (if row_matches mi it then Some 0 else map_option Suc (hmap_match rows it))"

text \<open>
  Modelled from the spec: a row is bound when it "matched at least one parsed item".
\<close>

definition row_bound :: "'cb hmap_item list \<Rightarrow> parsed_item list \<Rightarrow> nat \<Rightarrow> bool" where
  "row_bound rows items i = list_ex (\<lambda>it. hmap_match rows it = Some i) items"

text \<open>
  Modelled from the spec: "the capabilities bitstring records, bit-per-row, whether the
  row matched."
\<close>

definition hmap_caps :: "'cb hmap_item list \<Rightarrow> parsed_item list \<Rightarrow> bitstr_t" where
  "hmap_caps rows items = map (row_bound rows items) [0 ..< length rows]"

text \<open>
  Modelled from the spec: the two errors of attach that the claims name (spec 7).
\<close>

datatype hmap_error = ParseError nat | RequiredMapRowUnbound char_ptr

text \<open>
  Modelled from the spec: "every row with \<open>required = true\<close> must have matched at least
  one parsed item; otherwise attach fails with \<open>RequiredMapRowUnbound(row.name)\<close>". The
  spec does not say which row is named when several are unbound: the rows are checked in
  map order and the first one is named.
\<close>

fun hmap_check_required :: "'cb hmap_item list \<Rightarrow> bitstr_t \<Rightarrow> hmap_error option" where
  "hmap_check_required (mi # rows) (b # caps) =
     (if required mi \<and> \<not> b then Some (RequiredMapRowUnbound (name mi))
      else hmap_check_required rows caps)"
| "hmap_check_required rows caps = None"

text \<open>
  Modelled from the spec: the resolver of \<open>hmap_add_map\<close> (hmap.c, not among the
  sources): the capabilities, or the error of the required-row check.
\<close>

definition hmap_add_map ::
  "'cb hmap_item list \<Rightarrow> parsed_item list \<Rightarrow> hmap_error + bitstr_t" where
  "hmap_add_map rows items =
     (let caps = hmap_caps rows items
      in case hmap_check_required rows caps of
           Some e \<Rightarrow> Inl e
         | None \<Rightarrow> Inr caps)"

text \<open>
  Modelled from the spec: a record of one call of a row's callback: the index of the row
  and the arguments \<open>hi\<close> and \<open>ctx\<close>.
\<close>

type_synonym cb_call = "nat \<times> hmap_hid_item option \<times> int"

text \<open>
  Modelled from the spec: step 7 of attach, "invoke every completion row with
  \<open>hi = NULL\<close>" (spec 4.4), with \<open>ctx = 0\<close> (spec 4.5). The rows are visited in
  map order, \<open>i\<close> being the index of the next one; each call starts from the device
  state the call before it left.
\<close>

fun hmap_compl_attach ::
  "nat \<Rightarrow> hmap_cb_t hmap_item list \<Rightarrow> hmap_softc \<times> cb_call list \<Rightarrow> hmap_softc \<times> cb_call list" where
  "hmap_compl_attach i [] st = st"
| "hmap_compl_attach i (mi # rows) (sc, calls) =
     (case (is_completion mi, payload mi) of
        (True, Callback f) \<Rightarrow>
          hmap_compl_attach (Suc i) rows (fst (f sc None 0), calls @ [(i, None, 0)])
      | _ \<Rightarrow> hmap_compl_attach (Suc i) rows (sc, calls))"

text \<open>
  Modelled from the spec: \<open>hmap_attach\<close> (hmap.c, not among the sources), steps 2, 4
  and 7 of the attach sequence of spec 4.4: a parse error aborts, then an unbound required
  row aborts, then the completion rows run. \<open>parsed\<close> is the parser's result, the offset
  of a parse error or the parsed items. The steps that create and register the sink and
  announce event codes are not modelled.
\<close>

definition hmap_attach ::
  "hmap_cb_t hmap_item list \<Rightarrow> nat + parsed_item list \<Rightarrow> hmap_softc
     \<Rightarrow> hmap_error + (hmap_softc \<times> bitstr_t \<times> cb_call list)" where
  "hmap_attach rows parsed sc =
     (case parsed of
        Inl off \<Rightarrow> Inl (ParseError off)
      | Inr items \<Rightarrow>
          (case hmap_add_map rows items of
             Inl e \<Rightarrow> Inl e
           | Inr caps \<Rightarrow>
               (let (sc', calls) = hmap_compl_attach 0 rows (sc, [])
                in Inr (sc', caps, calls))))"






section \<open>iichid.c\<close>

text \<open>
  \<open>ENXIO\<close> and \<open>EINVAL\<close> of \<open>errno.h\<close>.
\<close>

definition ENXIO :: int where "ENXIO = 6"

definition EINVAL :: int where "EINVAL = 22"

text \<open>
  What a function of iichid.c does to the world outside \<open>struct iichid\<close> is the list of
  events it returns, in program order. \<open>IICHID_DEBUG\<close> is defined in iichid.c, so
  \<open>DPRINTF\<close> is \<open>device_printf\<close>; a print is recorded by its format string (an
  apostrophe spelled out). \<open>Intr_handler_call h hsc data len\<close> is the call
  \<open>sc->intr_handler(sc->intr_sc, input_buf + 2, len)\<close>, \<open>data\<close> being the bytes of
  the buffer from offset 2 on.
\<close>

datatype iichid_event =
    Device_printf string
  | Intr_handler_call nat nat "8 word list" int
  | Callout_init
  | Callout_reset int
  | Callout_stop
  | Bus_setup_intr
  | Bus_teardown_intr nat
  | Malloc int
  | Free_input_buf
  | Bus_release_resource int nat
  | Taskqueue_block nat
  | Taskqueue_drain nat
  | Taskqueue_free nat

text \<open>
  Of \<open>struct iichid\<close> (iichid.h, not among the sources) the fields the functions below
  use. A pointer is an \<open>option\<close>, \<open>None\<close> for \<open>NULL\<close>; \<open>input_buf\<close> holds the bytes
  of the allocated buffer; resources, the cookie and the task queue are opaque numbers,
  as are the handler and its context.
\<close>

record iichid =
  wMaxInputLength :: "16 word"
  intr_handler :: nat
  intr_sc :: nat
  input_buf :: "8 word list option"
  input_size :: int
  irq_res :: "nat option"
  irq_rid :: int
  irq_cookie :: "nat option"
  sampling_rate :: int
  callout_setup :: bool
  taskqueue :: "nat option"

text \<open>
  What the kernel gives the transport: \<open>hz\<close>, the constant
  \<open>IICHID_DEFAULT_SAMPLING_RATE\<close> of iichid.h, and the results of \<open>taskqueue_create\<close>,
  of \<open>bus_alloc_resource_any\<close> and of \<open>bus_setup_intr\<close> (its error and the cookie it
  stores).
\<close>

record kernel =
  hz :: int
  IICHID_DEFAULT_SAMPLING_RATE :: int
  taskqueue_create :: "nat option"
  bus_alloc_resource_any :: "nat option"
  bus_setup_intr :: "int \<times> nat option"

text \<open>
  C's \<open>/\<close> on \<open>int\<close> truncates towards zero.
\<close>

definition c_div :: "int \<Rightarrow> int \<Rightarrow> int" where
  "c_div a b = sgn a * sgn b * (\<bar>a\<bar> div \<bar>b\<bar>)"

text \<open>
  \<open>data[0] | data[1] << 8\<close>, the bytes promoted to \<open>int\<close>.
\<close>

definition le16 :: "8 word list \<Rightarrow> int" where
  "le16 data = uint (data ! 0) OR push_bit 8 (uint (data ! 1))"

text \<open>
  \<open>xfer\<close> is the result of \<open>iichid_fetch_buffer\<close>: the error of \<open>iicbus_transfer\<close> and
  the \<open>len\<close> bytes read into the local array \<open>buf[len]\<close>. \<open>data\<close> is the buffer the
  caller passes with its bytes (\<open>None\<close> for \<open>NULL\<close>), and \<open>actual_len\<close> the value of
  \<open>*actual_len\<close> before the call; the result has the error, the buffer and
  \<open>*actual_len\<close> after it. \<open>memcpy(data, buf, len)\<close> replaces the first \<open>len\<close> bytes
  of the buffer. The result is \<open>None\<close> where the C has no defined behaviour: an array
  of no positive size, a \<open>memcpy\<close> to \<open>NULL\<close> or beyond the end of the buffer, or a
  buffer of fewer than 2 bytes, beyond which \<open>data[1]\<close> lies; and where \<open>xfer\<close> is not
  a read of \<open>len\<close> bytes.
\<close>

definition iichid_fetch_input_report ::
  "int \<times> 8 word list \<Rightarrow> iichid \<Rightarrow> 8 word list option \<Rightarrow> int \<Rightarrow> int
     \<Rightarrow> (int \<times> 8 word list option \<times> int \<times> iichid_event list) option" where
  "iichid_fetch_input_report xfer sc data len actual_len =
     (case xfer of (error, buf) \<Rightarrow>
        if len \<le> 0 then None
        else if error \<noteq> 0
        then Some (error, data, actual_len,
                   [Device_printf ''could not retrieve input report (%d)''])
        else if length buf \<noteq> nat len then None
        else (case data of
                None \<Rightarrow> None
              | Some old \<Rightarrow>
                  if length old < nat len \<or> length old < 2 then None
                  else (let data' = buf @ drop (nat len) old
                        in Some (0, Some data', le16 data', []))))"

text \<open>
  The task passes \<open>sc->input_buf\<close> and \<open>sc->input_size\<close>; the buffer that
  \<open>iichid_fetch_input_report\<close> leaves is \<open>sc->input_buf\<close> afterwards.
\<close>

definition iichid_event_task ::
  "kernel \<Rightarrow> int \<times> 8 word list \<Rightarrow> iichid \<Rightarrow> (iichid \<times> iichid_event list) option" where
  "iichid_event_task k xfer sc =
     (case iichid_fetch_input_report xfer sc (input_buf sc) (input_size sc) 0 of
        None \<Rightarrow> None
      | Some (error, data, actual, ev1) \<Rightarrow>
          (let sc1 = sc\<lparr>input_buf := data\<rparr>;
               ev2 =
                 (if error \<noteq> 0 then [Device_printf ''an error occured'']
                  else if actual \<le> 2 then []
                  else (case data of
                          None \<Rightarrow> []
                        | Some d \<Rightarrow>
                            [Intr_handler_call (intr_handler sc1) (intr_sc sc1)
                               (drop 2 d) (actual - 2)]));
               ev3 =
                 (if callout_setup sc1 \<and> sampling_rate sc1 > 0
                  then [Callout_reset (c_div (hz k) (sampling_rate sc1))]
                  else [])
           in Some (sc1, ev1 @ ev2 @ ev3)))"

definition iichid_setup_callout :: "iichid \<Rightarrow> int \<times> iichid \<times> iichid_event list" where
  "iichid_setup_callout sc =
     (if sampling_rate sc < 0
      then (EINVAL, sc, [Device_printf ''sampling_rate is below 0, cannot setup callout''])
      else (0, sc\<lparr>callout_setup := True\<rparr>,
            [Callout_init, Device_printf ''successfully setup callout'']))"

definition iichid_reset_callout :: "kernel \<Rightarrow> iichid \<Rightarrow> int \<times> iichid_event list" where
  "iichid_reset_callout k sc =
     (if sampling_rate sc \<le> 0
      then (EINVAL,
            [Device_printf ''sampling_rate is below or equal to 0, cannot reset callout''])
      else if callout_setup sc
           then (0, [Callout_reset (c_div (hz k) (sampling_rate sc))])
           else (EINVAL, []))"

definition iichid_teardown_callout :: "iichid \<Rightarrow> iichid \<times> iichid_event list" where
  "iichid_teardown_callout sc =
     (sc\<lparr>callout_setup := False\<rparr>, [Callout_stop, Device_printf ''tore callout down''])"

definition iichid_setup_interrupt :: "kernel \<Rightarrow> iichid \<Rightarrow> int \<times> iichid \<times> iichid_event list" where
  "iichid_setup_interrupt k sc =
     (let sc1 = sc\<lparr>irq_cookie := None\<rparr>;
          (error, cookie) = bus_setup_intr k;
          sc2 = sc1\<lparr>irq_cookie := cookie\<rparr>
      in if error \<noteq> 0
         then (error, sc2, [Bus_setup_intr, Device_printf ''Could not setup interrupt handler''])
         else (0, sc2, [Bus_setup_intr, Device_printf ''successfully setup interrupt'']))"

definition iichid_teardown_interrupt :: "iichid \<Rightarrow> iichid \<times> iichid_event list" where
  "iichid_teardown_interrupt sc =
     (sc\<lparr>irq_cookie := None\<rparr>,
      (case irq_cookie sc of Some c \<Rightarrow> [Bus_teardown_intr c] | None \<Rightarrow> []))"

text \<open>
  \<open>err\<close> and \<open>newptr\<close> are the outcome of \<open>sysctl_handle_int\<close>: its return value, and
  \<open>req->newptr\<close> with the value a write request carries (\<open>None\<close> for \<open>NULL\<close>, a
  read), which \<open>sysctl_handle_int\<close> stores in \<open>value\<close> when it succeeds.
\<close>

definition iichid_sysctl_sampling_rate_handler ::
  "kernel \<Rightarrow> int \<Rightarrow> int option \<Rightarrow> iichid \<Rightarrow> int \<times> iichid \<times> iichid_event list" where
  "iichid_sysctl_sampling_rate_handler k err newptr sc =
     (let oldval = sampling_rate sc;
          value = (case newptr of
                     Some v \<Rightarrow> (if err = 0 then v else sampling_rate sc)
                   | None \<Rightarrow> sampling_rate sc)
      in if err \<noteq> 0 \<or> newptr = None \<or> value = sampling_rate sc then (err, sc, [])
         else if irq_res sc = None \<and> value < 0 then (err, sc, [])
         else
           (let sc1 = sc\<lparr>sampling_rate := value\<rparr>;
                (sc2, ev2) =
                  (if oldval < 0 \<and> value \<ge> 0
                   then (let (sa, ea) = iichid_teardown_interrupt sc1;
                             (ignored, sb, eb) = iichid_setup_callout sa
                         in (sb, ea @ eb))
                   else if oldval \<ge> 0 \<and> value < 0
                   then (let (sa, ea) = iichid_teardown_callout sc1;
                             (ignored, sb, eb) = iichid_setup_interrupt k sa
                         in (sb, ea @ eb))
                   else (sc1, []));
                ev3 = (if value > 0 then snd (iichid_reset_callout k sc2) else [])
            in (0, sc2, ev2 @ ev3 @ [Device_printf ''new sampling_rate value: %d''])))"

text \<open>
  \<open>malloc(sc->input_size, M_DEVBUF, M_WAITOK | M_ZERO)\<close> is a buffer of that many zero
  bytes; \<open>le16toh\<close> reads the descriptor's little-endian field.
\<close>

definition iichid_set_intr ::
  "kernel \<Rightarrow> nat \<Rightarrow> nat \<Rightarrow> iichid \<Rightarrow> int \<times> iichid \<times> iichid_event list" where
  "iichid_set_intr k intr isc sc =
     (let sc0 = sc\<lparr>intr_handler := intr, intr_sc := isc, taskqueue := taskqueue_create k\<rparr>
      in if taskqueue sc0 = None then (ENXIO, sc0, [])
         else
           (let sc1 = (if input_size sc0 = 0
                       then sc0\<lparr>input_size := uint (wMaxInputLength sc0)\<rparr> else sc0);
                sc2 = sc1\<lparr>input_buf := Some (replicate (nat (input_size sc1)) 0)\<rparr>;
                sc3 = sc2\<lparr>irq_rid := 0, sampling_rate := - 1,
                          irq_res := bus_alloc_resource_any k\<rparr>;
                (sc4, ev4) =
                  (if irq_res sc3 \<noteq> None
                   then (sc3, [Device_printf ''allocated irq at 0x%lx and rid %d''])
                   else (sc3\<lparr>sampling_rate := IICHID_DEFAULT_SAMPLING_RATE k\<rparr>,
                         [Device_printf ''IRQ allocation failed. Fallback to sampling.'']));
                (sc5, ev5) =
                  (if sampling_rate sc4 < 0
                   then (let (error, s, e) = iichid_setup_interrupt k sc4
                         in if error \<noteq> 0
                            then (s\<lparr>sampling_rate := IICHID_DEFAULT_SAMPLING_RATE k\<rparr>,
                                  e @ [Device_printf ''Interrupt setup failed. Fallback to sampling.''])
                            else (s, e))
                   else (sc4, []));
                (sc6, ev6) =
                  (if sampling_rate sc5 \<ge> 0
                   then (let (ignored, s, e) = iichid_setup_callout sc5
                         in (s, e @ snd (iichid_reset_callout k s)))
                   else (sc5, []))
            in (0, sc6, [Malloc (input_size sc1)] @ ev4 @ ev5 @ ev6)))"

text \<open>
  Modelled from the spec: \<open>hid_report_size(buf, len, hid_input, NULL)\<close>, declared
  outside the sources, as the spec words it: the "max over report IDs of the highest bit
  after any parsed item, rounded up to bytes". The highest bit after an item is
  \<open>bit_offset + bit_width * count\<close>.
\<close>

definition hid_report_size :: "parsed_item list \<Rightarrow> int" where
  "hid_report_size items =
     int (fold max
            (map (\<lambda>it. (loc_bit_offset (location it)
                          + loc_bit_width (location it) * loc_count (location it) + 7) div 8)
               items) 0)"

text \<open>
  \<open>xfer\<close> is the result of \<open>iichid_fetch_buffer\<close>: the error and the descriptor read,
  of a type \<open>'d\<close> that the parser \<open>hid_report_size_input\<close> (for
  \<open>hid_report_size(tmpbuf, *len, hid_input, NULL)\<close>, declared outside the sources) reads.
  The third component of the result is \<open>*buf\<close>.
\<close>

definition iichid_get_report_desc ::
  "('d \<Rightarrow> int) \<Rightarrow> int \<times> 'd \<Rightarrow> iichid \<Rightarrow> int \<times> iichid \<times> 'd option \<times> iichid_event list" where
  "iichid_get_report_desc hid_report_size_input xfer sc =
     (case xfer of (error, tmpbuf) \<Rightarrow>
        if error \<noteq> 0
        then (error, sc, None,
              [Device_printf ''HID command I2C_HID_REPORT_DESCR at 0x%x with size %d'',
               Device_printf ''could not retrieve report descriptor (%d)''])
        else
          (let sc' = sc\<lparr>input_size := hid_report_size_input tmpbuf + 2\<rparr>
           in (0, sc', Some tmpbuf,
               [Device_printf ''HID command I2C_HID_REPORT_DESCR at 0x%x with size %d'',
                Device_printf ''HID report descriptor: %*D'']
               @ (if input_size sc' \<noteq> uint (wMaxInputLength sc')
                  then [Device_printf
                          ''determined (len=%d) and described (len=%d) input report lengths mismatch'']
                  else []))))"

definition iichid_destroy :: "iichid \<Rightarrow> iichid \<times> iichid_event list" where
  "iichid_destroy sc =
     (let ev1 = (if input_buf sc \<noteq> None then [Free_input_buf] else []);
          (sc1, ev2) = iichid_teardown_callout sc;
          (sc2, ev3) = iichid_teardown_interrupt sc1;
          ev4 = (case irq_res sc2 of
                   Some r \<Rightarrow> [Bus_release_resource (irq_rid sc2) r]
                 | None \<Rightarrow> []);
          ev5 = (case taskqueue sc2 of
                   Some t \<Rightarrow> [Taskqueue_block t, Taskqueue_drain t, Taskqueue_free t]
                 | None \<Rightarrow> [])
      in (sc2, ev1 @ ev2 @ ev3 @ ev4 @ ev5))"

text \<open>
  The polling invariant: without an IRQ resource the sampling rate is not negative.
\<close>

definition polling_inv :: "iichid \<Rightarrow> bool" where
  "polling_inv sc = (irq_res sc = None \<longrightarrow> 0 \<le> sampling_rate sc)"

section \<open>Concrete devices\<close>

text \<open>
  Concrete inputs. A one-field Variable item at a bit offset, absolute, in report 0.
\<close>

definition var_item :: "int \<Rightarrow> int \<Rightarrow> nat \<Rightarrow> nat \<Rightarrow> parsed_item" where
  "var_item p u off w =
     \<lparr>location = \<lparr>loc_report_id = 0, loc_bit_offset = off, loc_bit_width = w, loc_count = 1,
                   logical_min = 0, logical_max = 2 ^ w - 1\<rparr>,
      usage_kind = Variable (HID_USAGE2 p u), relative = False\<rparr>"

text \<open>
  The pen descriptor of the spec's scenario S3 (X, Y, TipPressure, TipSwitch, InRange,
  Invert, Eraser), and the same without TipPressure, of scenario S4.
\<close>

definition pen_descriptor :: "parsed_item list" where
  "pen_descriptor =
     [var_item HUP_GENERIC_DESKTOP HUG_X 0 16,
      var_item HUP_GENERIC_DESKTOP HUG_Y 16 16,
      var_item HUP_DIGITIZERS HUD_TIP_PRESSURE 32 16,
      var_item HUP_DIGITIZERS HUD_TIP_SWITCH 48 1,
      var_item HUP_DIGITIZERS HUD_IN_RANGE 49 1,
      var_item HUP_DIGITIZERS HUD_INVERT 50 1,
      var_item HUP_DIGITIZERS HUD_ERASER 51 1]"


text \<open>
  A device state whose sink has received no call.
\<close>

definition sc_init :: hmap_softc where
  "sc_init = \<lparr>evdev = []\<rparr>"

text \<open>
  A map written with the macros of hmap.h as hmap.h declares them, a name string first
  and a full usage second: two required axes and the completion row of the pen map.
\<close>

definition xy_map :: "hmap_cb_t hmap_item list" where
  "xy_map =
    [ (HMAP_ABS (String_literal ''X'') (HID_USAGE2 HUP_GENERIC_DESKTOP HUG_X) ABS_X)
        \<lparr>required := True\<rparr>,
      (HMAP_ABS (String_literal ''Y'') (HID_USAGE2 HUP_GENERIC_DESKTOP HUG_Y) ABS_Y)
        \<lparr>required := True\<rparr>,
      HMAP_COMPL_CB hpen_compl_pen_cb ]"



text \<open>
  A world for \<open>hpen_attach\<close> that records the calls in order: \<open>traced_ops q e r\<close> has
  the quirk when \<open>q\<close>, its \<open>hid_set_report\<close> returns \<open>e\<close> and its \<open>hmap_attach\<close>
  returns \<open>r\<close>.
\<close>

datatype hpen_event =
    Ev_set_report "8 word list" nat hid_report_type "8 word"
  | Ev_dprintf string int
  | Ev_hmap_attach

definition traced_ops :: "bool \<Rightarrow> int \<Rightarrow> int \<Rightarrow> hpen_event list hpen_ops" where
  "traced_ops q e r =
     \<lparr>hid_test_quirk_GRAPHIRE3_4X5 = (\<lambda>w. q),
      hid_set_report = (\<lambda>w buf len t rid. (w @ [Ev_set_report buf len t rid], e)),
      DPRINTF = (\<lambda>w fmt a. w @ [Ev_dprintf fmt a]),
      hmap_attach_op = (\<lambda>w. (w @ [Ev_hmap_attach], r))\<rparr>"

text \<open>
  A zeroed \<open>struct iichid\<close>, a kernel that grants the IRQ and one that refuses it, and
  the transport after \<open>iichid_get_report_desc\<close> of the pen descriptor and
  \<open>iichid_set_intr\<close>.
\<close>

definition iichid_zero :: iichid where
  "iichid_zero =
     \<lparr>wMaxInputLength = 0, intr_handler = 0, intr_sc = 0, input_buf = None, input_size = 0,
      irq_res = None, irq_rid = 0, irq_cookie = None, sampling_rate = 0,
      callout_setup = False, taskqueue = None\<rparr>"

definition kernel_irq :: kernel where
  "kernel_irq =
     \<lparr>hz = 1000, IICHID_DEFAULT_SAMPLING_RATE = 60, taskqueue_create = Some 1,
      bus_alloc_resource_any = Some 2, bus_setup_intr = (0, Some 3)\<rparr>"

definition kernel_no_irq :: kernel where
  "kernel_no_irq =
     \<lparr>hz = 1000, IICHID_DEFAULT_SAMPLING_RATE = 60, taskqueue_create = Some 1,
      bus_alloc_resource_any = None, bus_setup_intr = (6, None)\<rparr>"

definition iichid_attached :: "kernel \<Rightarrow> iichid" where
  "iichid_attached k =
     fst (snd (iichid_set_intr k 7 8
       (fst (snd (iichid_get_report_desc hid_report_size (0, pen_descriptor) iichid_zero)))))"

text \<open>
  The transport of a device whose HID descriptor gives \<open>wMaxInputLength = 4\<close>, after
  \<open>iichid_set_intr\<close> and then \<open>iichid_get_report_desc\<close> of the pen descriptor: the
  order that the comment "if report descriptor has not been fetched yet" in
  \<open>iichid_set_intr\<close> provides for.
\<close>

definition iichid_late :: iichid where
  "iichid_late =
     fst (snd (iichid_get_report_desc hid_report_size (0, pen_descriptor)
       (fst (snd (iichid_set_intr kernel_irq 7 8 (iichid_zero\<lparr>wMaxInputLength := 4\<rparr>))))))"

text \<open>
  The transport of a device whose HID descriptor gives \<open>wMaxInputLength = 1\<close>, after
  \<open>iichid_set_intr\<close> alone.
\<close>

definition iichid_short :: iichid where
  "iichid_short = fst (snd (iichid_set_intr kernel_irq 7 8 (iichid_zero\<lparr>wMaxInputLength := 1\<rparr>)))"

chapter \<open>Properties\<close>

section \<open>Capability counting\<close>

lemma bit_count_card:
  assumes "0 \<le> start" and "nat nbits \<le> length caps"
  shows "bit_count caps start nbits = int (card {i. nat start \<le> i \<and> i < nat nbits \<and> caps ! i})"
proof (cases "start \<ge> nbits")
  case True
  then have "{i. nat start \<le> i \<and> i < nat nbits \<and> caps ! i} = {}" by auto
  with True show ?thesis by (simp add: bit_count_def)
next
  case False
  let ?A = "{x. bit_test caps x} \<inter> set [start .. nbits - 1]"
  have len: "length (filter (\<lambda>i. bit_test caps i) [start .. nbits - 1]) = card ?A"
    by (rule distinct_length_filter) simp
  have inj: "inj_on nat ?A"
    using assms(1) by (auto simp: inj_on_def)
  have img: "nat ` ?A = {i. nat start \<le> i \<and> i < nat nbits \<and> caps ! i}"
  proof (rule set_eqI, rule iffI)
    fix i assume "i \<in> nat ` ?A"
    then show "i \<in> {i. nat start \<le> i \<and> i < nat nbits \<and> caps ! i}"
      using assms by (auto simp: bit_test_def)
  next
    fix i assume i: "i \<in> {i. nat start \<le> i \<and> i < nat nbits \<and> caps ! i}"
    then have "int i \<in> ?A" using assms by (auto simp: bit_test_def)
    then have "nat (int i) \<in> nat ` ?A" by (rule imageI)
    then show "i \<in> nat ` ?A" by simp
  qed
  have "card ?A = card (nat ` ?A)" using inj by (simp add: card_image)
  with len img False show ?thesis by (simp add: bit_count_def)
qed

lemma filter_nth_take:
  "n \<le> length xs \<Longrightarrow> card {i. i < n \<and> xs ! i} = length (filter (\<lambda>b. b) (take n xs))"
proof -
  assume n: "n \<le> length xs"
  have "length (filter (\<lambda>b. b) (take n xs)) = card {i. i < length (take n xs) \<and> (take n xs) ! i}"
    by (rule length_filter_conv_card)
  also have "{i. i < length (take n xs) \<and> (take n xs) ! i} = {i. i < n \<and> xs ! i}"
    using n by auto
  finally show ?thesis by simp
qed

text \<open>
  C8. For a capabilities bitstring and positions \<open>0 \<le> first \<le> last\<close> inside it,
  \<open>hmap_count_caps(caps, first, last)\<close> is the number of set bits at the positions
  \<open>first\<close> to \<open>last\<close> inclusive; for \<open>first = 0\<close> that is the number of bound rows
  among the first \<open>last + 1\<close> rows.
\<close>

theorem hmap_count_caps_counts:
  assumes "0 \<le> first_bit" and "first_bit \<le> last_bit" and "nat last_bit < length caps"
  shows "hmap_count_caps caps first_bit last_bit =
           int (card {i. nat first_bit \<le> i \<and> i \<le> nat last_bit \<and> caps ! i})
         \<and> hmap_count_caps caps 0 last_bit =
           int (length (filter (\<lambda>b. b) (take (nat last_bit + 1) caps)))"
proof -
  have l: "0 \<le> last_bit" using assms by simp
  have n: "nat (last_bit + 1) \<le> length caps" using assms by simp
  have s: "\<And>a. {i. a \<le> i \<and> i < nat (last_bit + 1) \<and> caps ! i} = {i. a \<le> i \<and> i \<le> nat last_bit \<and> caps ! i}"
    using l by auto
  have a: "hmap_count_caps caps first_bit last_bit =
           int (card {i. nat first_bit \<le> i \<and> i \<le> nat last_bit \<and> caps ! i})"
    unfolding hmap_count_caps_def using bit_count_card [OF assms(1) n] s by simp
  have "hmap_count_caps caps 0 last_bit = int (card {i. i < nat (last_bit + 1) \<and> caps ! i})"
    unfolding hmap_count_caps_def using bit_count_card [of 0 "last_bit + 1" caps] n by simp
  also have "\<dots> = int (length (filter (\<lambda>b. b) (take (nat last_bit + 1) caps)))"
    using filter_nth_take [of "nat (last_bit + 1)" caps] n l by (simp add: nat_add_distrib)
  finally show ?thesis using a by simp
qed

theorem hmap_count_caps_counts_witness:
  "hmap_count_caps [True, False, True, True, False] 1 3 = 2
   \<and> hmap_count_caps [True, False, True, True, False] 0 3 = 3"
proof -
  have c: "card {i. nat 1 \<le> i \<and> i \<le> nat 3 \<and> [True, False, True, True, False] ! i} = 2"
  proof -
    have "{i. nat 1 \<le> i \<and> i \<le> nat 3 \<and> [True, False, True, True, False] ! i} = {2, 3}"
      by (auto simp: nth_Cons' le_Suc_eq numeral_eq_Suc split: if_splits)
    then show ?thesis by simp
  qed
  show ?thesis
    using hmap_count_caps_counts [of 1 3 "[True, False, True, True, False]"] c
    by simp
qed

section \<open>Row constructors\<close>

text \<open>
  C4. Each declarative row constructor yields a row with its presets: \<open>HMAP_KEY\<close> an
  \<open>EV_KEY\<close> event row, \<open>HMAP_REL\<close> an \<open>EV_REL\<close> event row that is relative,
  \<open>HMAP_ABS\<close> an \<open>EV_ABS\<close> event row that is absolute, \<open>HMAP_ANY_CB\<close> a callback row
  (\<open>has_cb\<close> set, \<open>cb\<close> the given function) and \<open>HMAP_COMPL_CB\<close> a completion row
  (\<open>has_cb\<close> set, no usage).
\<close>

theorem hmap_row_constructors:
  "payload (HMAP_KEY n u c :: 'cb hmap_item) = Event EV_KEY c
   \<and> usage (HMAP_KEY n u c :: 'cb hmap_item) = Some u
   \<and> \<not> has_cb (HMAP_KEY n u c :: 'cb hmap_item)
   \<and> payload (HMAP_REL n u c :: 'cb hmap_item) = Event EV_REL c
   \<and> usage (HMAP_REL n u c :: 'cb hmap_item) = Some u
   \<and> relabs (HMAP_REL n u c :: 'cb hmap_item) = HMAP_RELATIVE
   \<and> \<not> has_cb (HMAP_REL n u c :: 'cb hmap_item)
   \<and> payload (HMAP_ABS n u c :: 'cb hmap_item) = Event EV_ABS c
   \<and> usage (HMAP_ABS n u c :: 'cb hmap_item) = Some u
   \<and> relabs (HMAP_ABS n u c :: 'cb hmap_item) = HMAP_ABSOLUTE
   \<and> \<not> has_cb (HMAP_ABS n u c :: 'cb hmap_item)
   \<and> payload (HMAP_ANY_CB n u f) = Callback f
   \<and> usage (HMAP_ANY_CB n u f) = Some u
   \<and> has_cb (HMAP_ANY_CB n u f)
   \<and> \<not> is_completion (HMAP_ANY_CB n u f)
   \<and> payload (HMAP_COMPL_CB f) = Callback f
   \<and> has_cb (HMAP_COMPL_CB f)
   \<and> usage (HMAP_COMPL_CB f) = None
   \<and> is_completion (HMAP_COMPL_CB f)"
proof -
  have key: "payload (HMAP_KEY n u c :: 'cb hmap_item) = Event EV_KEY c
      \<and> usage (HMAP_KEY n u c :: 'cb hmap_item) = Some u
      \<and> \<not> has_cb (HMAP_KEY n u c :: 'cb hmap_item)"
    by (simp add: HMAP_KEY_def)
  have rel: "payload (HMAP_REL n u c :: 'cb hmap_item) = Event EV_REL c
      \<and> usage (HMAP_REL n u c :: 'cb hmap_item) = Some u
      \<and> relabs (HMAP_REL n u c :: 'cb hmap_item) = HMAP_RELATIVE
      \<and> \<not> has_cb (HMAP_REL n u c :: 'cb hmap_item)"
    by (simp add: HMAP_REL_def)
  have abs: "payload (HMAP_ABS n u c :: 'cb hmap_item) = Event EV_ABS c
      \<and> usage (HMAP_ABS n u c :: 'cb hmap_item) = Some u
      \<and> relabs (HMAP_ABS n u c :: 'cb hmap_item) = HMAP_ABSOLUTE
      \<and> \<not> has_cb (HMAP_ABS n u c :: 'cb hmap_item)"
    by (simp add: HMAP_ABS_def)
  have any: "payload (HMAP_ANY_CB n u f) = Callback f
      \<and> usage (HMAP_ANY_CB n u f) = Some u
      \<and> has_cb (HMAP_ANY_CB n u f)
      \<and> \<not> is_completion (HMAP_ANY_CB n u f)"
    by (simp add: HMAP_ANY_CB_def is_completion_def)
  have compl: "payload (HMAP_COMPL_CB f) = Callback f
      \<and> has_cb (HMAP_COMPL_CB f)
      \<and> usage (HMAP_COMPL_CB f) = None
      \<and> is_completion (HMAP_COMPL_CB f)"
    by (simp add: HMAP_COMPL_CB_def is_completion_def)
  from key rel abs any compl show ?thesis by blast
qed

section \<open>Required rows\<close>

lemmas hid_consts =
  HUP_GENERIC_DESKTOP_def HUP_DIGITIZERS_def HUG_X_def HUG_Y_def
  HUD_TIP_PRESSURE_def HUD_IN_RANGE_def HUD_TOUCH_def HUD_BATTERY_STRENGTH_def HUD_INVERT_def
  HUD_X_TILT_def HUD_Y_TILT_def HUD_TIP_SWITCH_def HUD_SEC_TIP_SWITCH_def HUD_BARREL_SWITCH_def
  HUD_ERASER_def HUD_TABLET_PICK_def HUD_SEC_BARREL_SWITCH_def

lemmas hpen_row_defs =
  HPEN_MAP_ABS_GD_def HPEN_MAP_ABS_def HPEN_MAP_ABS_CB_def HPEN_MAP_BUT_def
  HMAP_KEY_def HMAP_ABS_def HMAP_ABS_CB_def HMAP_ANY_CB_def HMAP_COMPL_CB_def















section \<open>Completion callbacks\<close>

lemma upt_shift_Cons: "[i ..< i + length (x # xs)] = i # [Suc i ..< Suc i + length xs]"
proof -
  have "[i ..< i + Suc (length xs)] = i # [Suc i ..< i + Suc (length xs)]"
    by (rule upt_conv_Cons) simp
  then show ?thesis by (simp del: upt_Suc)
qed

lemma filter_shift:
  "filter (\<lambda>j. P ((x # xs) ! (j - i)) j) [Suc i ..< Suc i + length xs]
     = filter (\<lambda>j. P (xs ! (j - Suc i)) j) [Suc i ..< Suc i + length xs]"
proof (rule filter_cong [OF refl])
  fix j assume "j \<in> set [Suc i ..< Suc i + length xs]"
  then have "Suc i \<le> j" by (simp del: upt_Suc)
  then have "j - i = Suc (j - Suc i)" by simp
  then show "P ((x # xs) ! (j - i)) j = P (xs ! (j - Suc i)) j" by simp
qed

lemma hmap_compl_attach_calls:
  "snd (hmap_compl_attach i rows (sc, calls)) =
     calls @ map (\<lambda>j. (j, None, 0))
       (filter (\<lambda>j. is_completion (rows ! (j - i)) \<and> (\<exists>f. payload (rows ! (j - i)) = Callback f))
          [i ..< i + length rows])"
proof (induction rows arbitrary: i sc calls)
  case Nil
  show ?case by simp
next
  case (Cons mi rows)
  let ?P = "\<lambda>r (j::nat). is_completion r \<and> (\<exists>f. payload r = Callback f)"
  note tl = filter_shift [of ?P mi rows i]
  show ?case
  proof (cases "is_completion mi \<and> (\<exists>f. payload mi = Callback f)")
    case True
    then obtain f where f: "payload mi = Callback f" by blast
    with True show ?thesis
      unfolding upt_shift_Cons
      using Cons.IH [of "Suc i" "fst (f sc None 0)" "calls @ [(i, None, 0)]"] tl
      by simp
  next
    case False
    then have "hmap_compl_attach i (mi # rows) (sc, calls) = hmap_compl_attach (Suc i) rows (sc, calls)"
      by (cases "payload mi") (auto split: bool.splits)
    with False show ?thesis
      unfolding upt_shift_Cons using Cons.IH [of "Suc i" sc calls] tl
      by simp
  qed
qed

lemma wf_completion_filter:
  assumes wf: "\<forall>mi\<in>set rows. has_cb mi \<longrightarrow> (\<exists>f. payload mi = Callback f)"
  shows "filter (\<lambda>j. (is_completion (rows ! (j - 0)) \<and> Q j) \<and> (\<exists>f. payload (rows ! (j - 0)) = Callback f))
              [0 ..< 0 + length rows]
          = filter (\<lambda>j. is_completion (rows ! j) \<and> Q j) [0 ..< length rows]"
  using wf by (intro filter_cong) (auto simp: is_completion_def)

lemma hmap_attach_calls:
  assumes ok: "hmap_attach rows (Inr items) sc = Inr (sc', caps, calls)"
    and wf: "\<forall>mi\<in>set rows. has_cb mi \<longrightarrow> (\<exists>f. payload mi = Callback f)"
  shows "map fst calls = filter (\<lambda>j. is_completion (rows ! j)) [0 ..< length rows]"
    and "\<forall>c\<in>set calls. snd c = (None, 0)"
proof -
  from ok have c: "calls = snd (hmap_compl_attach 0 rows (sc, []))"
    by (auto simp: hmap_attach_def split: sum.splits prod.splits)
  from wf_completion_filter [OF wf, of "\<lambda>j. True"]
  have eq: "filter (\<lambda>j. is_completion (rows ! (j - 0)) \<and> (\<exists>f. payload (rows ! (j - 0)) = Callback f))
              [0 ..< 0 + length rows]
          = filter (\<lambda>j. is_completion (rows ! j)) [0 ..< length rows]"
    by simp
  from c hmap_compl_attach_calls [of 0 rows sc "[]"] eq
  have calls: "calls = map (\<lambda>j. (j, None, 0)) (filter (\<lambda>j. is_completion (rows ! j)) [0 ..< length rows])"
    by simp
  show "map fst calls = filter (\<lambda>j. is_completion (rows ! j)) [0 ..< length rows]"
    unfolding calls by (simp add: comp_def)
  show "\<forall>c\<in>set calls. snd c = (None, 0)"
    unfolding calls by auto
qed

lemma hpen_compl_pen_cb_evdev:
  "evdev (fst (hpen_compl_pen_cb sc hi ctx)) =
     evdev sc @ (if HMAP_CB_GET_STATE hi = HMAP_CB_IS_ATTACHING
                 then [Support_prop INPUT_PROP_DIRECT] else [])"
  by (simp add: hpen_compl_pen_cb_def evdev_support_prop_def)

lemma hpen_compl_digi_cb_evdev:
  "evdev (fst (hpen_compl_digi_cb sc hi ctx)) =
     evdev sc @ (if HMAP_CB_GET_STATE hi = HMAP_CB_IS_ATTACHING
                 then [Support_prop INPUT_PROP_POINTER] else [])"
  by (simp add: hpen_compl_digi_cb_def evdev_support_prop_def)

lemma hmap_compl_attach_pen:
  "hmap_compl_attach 0 hpen_map_pen (sc, []) =
     (sc\<lparr>evdev := evdev sc @ [Support_prop INPUT_PROP_DIRECT]\<rparr>, [(11, None, 0)])"
  by (simp add: hpen_map_pen_def hpen_row_defs is_completion_def
      hpen_compl_pen_cb_def HMAP_CB_GET_STATE_def evdev_support_prop_def)

lemma hmap_compl_attach_digi:
  "hmap_compl_attach 0 hpen_map_digi (sc, []) =
     (sc\<lparr>evdev := evdev sc @ [Support_prop INPUT_PROP_POINTER]\<rparr>, [(15, None, 0)])"
  by (simp add: hpen_map_digi_def hpen_row_defs is_completion_def
      hpen_compl_digi_cb_def HMAP_CB_GET_STATE_def evdev_support_prop_def)

lemma hmap_compl_attach_xy:
  "hmap_compl_attach 0 xy_map (sc, []) =
     (sc\<lparr>evdev := evdev sc @ [Support_prop INPUT_PROP_DIRECT]\<rparr>, [(2, None, 0)])"
  by (simp add: xy_map_def HMAP_ABS_def HMAP_COMPL_CB_def is_completion_def
      hpen_compl_pen_cb_def HMAP_CB_GET_STATE_def evdev_support_prop_def)

text \<open>
  C2. Attach invokes the callback of each completion row once, in map order, with
  \<open>hi = NULL\<close>. In that attaching state the completion callback of the pen map
  announces the one property \<open>INPUT_PROP_DIRECT\<close> and that of the digitizer map
  \<open>INPUT_PROP_POINTER\<close>; in any other state neither announces anything. The last two
  conjuncts give the completion step of attach on the two maps of hpen.c from any device
  state, whether or not the required rows of the map are bound.
\<close>

theorem hpen_completion_announces_prop:
  "evdev (fst (hpen_compl_pen_cb sc hi ctx)) =
     evdev sc @ (if HMAP_CB_GET_STATE hi = HMAP_CB_IS_ATTACHING
                 then [Support_prop INPUT_PROP_DIRECT] else [])
   \<and> evdev (fst (hpen_compl_digi_cb sc hi ctx)) =
     evdev sc @ (if HMAP_CB_GET_STATE hi = HMAP_CB_IS_ATTACHING
                 then [Support_prop INPUT_PROP_POINTER] else [])
   \<and> (HMAP_CB_GET_STATE hi = HMAP_CB_IS_ATTACHING) = (hi = None)
   \<and> (hmap_attach rows (Inr items) sc = Inr (sc', caps, calls)
        \<and> (\<forall>mi\<in>set rows. has_cb mi \<longrightarrow> (\<exists>f. payload mi = Callback f))
      \<longrightarrow> map fst calls = filter (\<lambda>j. is_completion (rows ! j)) [0 ..< length rows]
          \<and> (\<forall>c\<in>set calls. snd c = (None, 0)))
   \<and> (hmap_attach hpen_map_pen (Inr items) sc = Inr (sc', caps, calls)
      \<longrightarrow> evdev sc' = evdev sc @ [Support_prop INPUT_PROP_DIRECT] \<and> calls = [(11, None, 0)])
   \<and> (hmap_attach hpen_map_digi (Inr items) sc = Inr (sc', caps, calls)
      \<longrightarrow> evdev sc' = evdev sc @ [Support_prop INPUT_PROP_POINTER] \<and> calls = [(15, None, 0)])
   \<and> hmap_compl_attach 0 hpen_map_pen (sc, []) =
       (sc\<lparr>evdev := evdev sc @ [Support_prop INPUT_PROP_DIRECT]\<rparr>, [(11, None, 0)])
   \<and> hmap_compl_attach 0 hpen_map_digi (sc, []) =
       (sc\<lparr>evdev := evdev sc @ [Support_prop INPUT_PROP_POINTER]\<rparr>, [(15, None, 0)])"
proof (intro conjI impI)
  show "evdev (fst (hpen_compl_pen_cb sc hi ctx)) =
     evdev sc @ (if HMAP_CB_GET_STATE hi = HMAP_CB_IS_ATTACHING
                 then [Support_prop INPUT_PROP_DIRECT] else [])"
    by (rule hpen_compl_pen_cb_evdev)
  show "evdev (fst (hpen_compl_digi_cb sc hi ctx)) =
     evdev sc @ (if HMAP_CB_GET_STATE hi = HMAP_CB_IS_ATTACHING
                 then [Support_prop INPUT_PROP_POINTER] else [])"
    by (rule hpen_compl_digi_cb_evdev)
  show "(HMAP_CB_GET_STATE hi = HMAP_CB_IS_ATTACHING) = (hi = None)"
    by (simp add: HMAP_CB_GET_STATE_def)
  show "hmap_compl_attach 0 hpen_map_pen (sc, []) =
       (sc\<lparr>evdev := evdev sc @ [Support_prop INPUT_PROP_DIRECT]\<rparr>, [(11, None, 0)])"
    by (rule hmap_compl_attach_pen)
  show "hmap_compl_attach 0 hpen_map_digi (sc, []) =
       (sc\<lparr>evdev := evdev sc @ [Support_prop INPUT_PROP_POINTER]\<rparr>, [(15, None, 0)])"
    by (rule hmap_compl_attach_digi)
next
  assume h: "hmap_attach rows (Inr items) sc = Inr (sc', caps, calls)
        \<and> (\<forall>mi\<in>set rows. has_cb mi \<longrightarrow> (\<exists>f. payload mi = Callback f))"
  then show "map fst calls = filter (\<lambda>j. is_completion (rows ! j)) [0 ..< length rows]"
    using hmap_attach_calls(1) by blast
  from h show "\<forall>c\<in>set calls. snd c = (None, 0)"
    using hmap_attach_calls(2) by blast
next
  assume "hmap_attach hpen_map_pen (Inr items) sc = Inr (sc', caps, calls)"
  then have "(sc', calls) = hmap_compl_attach 0 hpen_map_pen (sc, [])"
    by (auto simp: hmap_attach_def split: sum.splits prod.splits)
  then have r: "sc' = sc\<lparr>evdev := evdev sc @ [Support_prop INPUT_PROP_DIRECT]\<rparr>" "calls = [(11, None, 0)]"
    by (simp_all add: hmap_compl_attach_pen)
  from r show "evdev sc' = evdev sc @ [Support_prop INPUT_PROP_DIRECT]" by simp
  from r show "calls = [(11, None, 0)]" by simp
next
  assume "hmap_attach hpen_map_digi (Inr items) sc = Inr (sc', caps, calls)"
  then have "(sc', calls) = hmap_compl_attach 0 hpen_map_digi (sc, [])"
    by (auto simp: hmap_attach_def split: sum.splits prod.splits)
  then have r: "sc' = sc\<lparr>evdev := evdev sc @ [Support_prop INPUT_PROP_POINTER]\<rparr>" "calls = [(15, None, 0)]"
    by (simp_all add: hmap_compl_attach_digi)
  from r show "evdev sc' = evdev sc @ [Support_prop INPUT_PROP_POINTER]" by simp
  from r show "calls = [(15, None, 0)]" by simp
qed

theorem hpen_completion_announces_prop_witness:
  "hmap_attach xy_map (Inr pen_descriptor) sc_init =
     Inr (\<lparr>evdev = [Support_prop INPUT_PROP_DIRECT]\<rparr>, [True, True, False], [(2, None, 0)])
   \<and> filter (\<lambda>j. is_completion (xy_map ! j)) [0 ..< length xy_map] = [2]
   \<and> hmap_compl_attach 0 hpen_map_pen (sc_init, []) =
       (\<lparr>evdev = [Support_prop INPUT_PROP_DIRECT]\<rparr>, [(11, None, 0)])"
proof -
  have caps: "hmap_caps xy_map pen_descriptor = [True, True, False]"
    by (simp add: hmap_caps_def row_bound_def xy_map_def pen_descriptor_def var_item_def
        row_matches_def HMAP_ABS_def HMAP_COMPL_CB_def HID_USAGE2_def hid_consts
        upt_rec [of _ "Suc _"])
  have req: "hmap_check_required xy_map [True, True, False] = None"
    by (simp add: xy_map_def HMAP_ABS_def HMAP_COMPL_CB_def)
  have ev: "hmap_attach xy_map (Inr pen_descriptor) sc_init =
     Inr (\<lparr>evdev = [Support_prop INPUT_PROP_DIRECT]\<rparr>, [True, True, False], [(2, None, 0)])"
    by (simp add: hmap_attach_def hmap_add_map_def caps req hmap_compl_attach_xy sc_init_def)
  have wf: "\<forall>mi\<in>set xy_map. has_cb mi \<longrightarrow> (\<exists>f. payload mi = Callback f)"
    by (simp add: xy_map_def HMAP_ABS_def HMAP_COMPL_CB_def)
  note inst = hpen_completion_announces_prop
    [of sc_init None 0 xy_map pen_descriptor
        "\<lparr>evdev = [Support_prop INPUT_PROP_DIRECT]\<rparr>" "[True, True, False]" "[(2, None, 0)]"]
  from inst ev wf
  have a: "map fst [(2::nat, None :: hmap_hid_item option, 0::int)]
      = filter (\<lambda>j. is_completion (xy_map ! j)) [0 ..< length xy_map]"
    by blast
  from inst have b: "hmap_compl_attach 0 hpen_map_pen (sc_init, []) =
       (sc_init\<lparr>evdev := evdev sc_init @ [Support_prop INPUT_PROP_DIRECT]\<rparr>, [(11, None, 0)])"
    by blast
  from ev a b show ?thesis by (simp add: sc_init_def)
qed













section \<open>The Graphire3 feature report\<close>

lemma reportbuf_len: "length reportbuf = 3"
  by (simp add: reportbuf_def)

lemma reportbuf_hd: "reportbuf ! 0 = 2"
  by (simp add: reportbuf_def)

lemma hpen_attach_unfold:
  "hpen_attach ops w =
     (if hid_test_quirk_GRAPHIRE3_4X5 ops w
      then (case hid_set_report ops w [2, 2, 2] 3 HID_FEATURE_REPORT 2 of
              (w1, e) \<Rightarrow>
                hmap_attach_op ops
                  (if e = 0 then w1
                   else DPRINTF ops w1 ''set feature report failed, error=%d (ignored)'' e))
      else hmap_attach_op ops w)"
  apply (unfold hpen_attach_def reportbuf_len reportbuf_hd)
  apply (unfold reportbuf_def Let_def)
  apply (auto split: prod.splits)
  done

text \<open>
  C5. With the Graphire3 quirk \<open>hpen_attach\<close> first writes the 3 bytes \<open>{2, 2, 2}\<close> as
  feature report 2, prints the error when the write fails, then runs \<open>hmap_attach\<close>,
  whose result is its result whatever the write returned. Without the quirk it only runs
  \<open>hmap_attach\<close>.
\<close>

theorem hpen_attach_graphire3:
  "(hid_test_quirk_GRAPHIRE3_4X5 ops w \<longrightarrow>
      (\<exists>w1 e. hid_set_report ops w [2, 2, 2] 3 HID_FEATURE_REPORT 2 = (w1, e)
         \<and> hpen_attach ops w =
             hmap_attach_op ops
               (if e = 0 then w1
                else DPRINTF ops w1 ''set feature report failed, error=%d (ignored)'' e)))
   \<and> (\<not> hid_test_quirk_GRAPHIRE3_4X5 ops w \<longrightarrow> hpen_attach ops w = hmap_attach_op ops w)
   \<and> hpen_attach (traced_ops True err r) t =
       (t @ [Ev_set_report [2, 2, 2] 3 HID_FEATURE_REPORT 2]
          @ (if err = 0 then []
             else [Ev_dprintf ''set feature report failed, error=%d (ignored)'' err])
          @ [Ev_hmap_attach], r)
   \<and> hpen_attach (traced_ops False err r) t = (t @ [Ev_hmap_attach], r)"
proof (intro conjI impI)
  assume q: "hid_test_quirk_GRAPHIRE3_4X5 ops w"
  obtain w1 e where s: "hid_set_report ops w [2, 2, 2] 3 HID_FEATURE_REPORT 2 = (w1, e)"
    by (cases "hid_set_report ops w [2, 2, 2] 3 HID_FEATURE_REPORT 2") blast
  have "hpen_attach ops w =
      hmap_attach_op ops
        (if e = 0 then w1 else DPRINTF ops w1 ''set feature report failed, error=%d (ignored)'' e)"
    using q s by (simp add: hpen_attach_unfold)
  with s show "\<exists>w1 e. hid_set_report ops w [2, 2, 2] 3 HID_FEATURE_REPORT 2 = (w1, e)
         \<and> hpen_attach ops w =
             hmap_attach_op ops
               (if e = 0 then w1
                else DPRINTF ops w1 ''set feature report failed, error=%d (ignored)'' e)"
    by blast
next
  assume "\<not> hid_test_quirk_GRAPHIRE3_4X5 ops w"
  then show "hpen_attach ops w = hmap_attach_op ops w"
    by (simp add: hpen_attach_unfold)
next
  show "hpen_attach (traced_ops True err r) t =
       (t @ [Ev_set_report [2, 2, 2] 3 HID_FEATURE_REPORT 2]
          @ (if err = 0 then []
             else [Ev_dprintf ''set feature report failed, error=%d (ignored)'' err])
          @ [Ev_hmap_attach], r)"
    by (simp add: hpen_attach_unfold traced_ops_def)
next
  show "hpen_attach (traced_ops False err r) t = (t @ [Ev_hmap_attach], r)"
    by (simp add: hpen_attach_unfold traced_ops_def)
qed

theorem hpen_attach_graphire3_witness:
  "hid_test_quirk_GRAPHIRE3_4X5 (traced_ops True 5 0) []
   \<and> hpen_attach (traced_ops True 5 0) [] =
       ([Ev_set_report [2, 2, 2] 3 HID_FEATURE_REPORT 2,
         Ev_dprintf ''set feature report failed, error=%d (ignored)'' 5,
         Ev_hmap_attach], 0)
   \<and> hpen_attach (traced_ops False 5 0) [] = ([Ev_hmap_attach], 0)"
proof -
  have q: "hid_test_quirk_GRAPHIRE3_4X5 (traced_ops True 5 0) []"
    by (simp add: traced_ops_def)
  have nq: "\<not> hid_test_quirk_GRAPHIRE3_4X5 (traced_ops False 5 0) []"
    by (simp add: traced_ops_def)
  from hpen_attach_graphire3 [of "traced_ops True 5 0" "[]" 5 0 "[]"] q
  have a: "hpen_attach (traced_ops True 5 0) [] =
       ([Ev_set_report [2, 2, 2] 3 HID_FEATURE_REPORT 2,
         Ev_dprintf ''set feature report failed, error=%d (ignored)'' 5,
         Ev_hmap_attach], 0)"
    by (auto simp: traced_ops_def)
  from hpen_attach_graphire3 [of "traced_ops False 5 0" "[]" 5 0 "[]"] nq
  have b: "hpen_attach (traced_ops False 5 0) [] = ([Ev_hmap_attach], 0)"
    by (auto simp: traced_ops_def)
  from q a b show ?thesis by simp
qed

section \<open>The input buffer\<close>

lemma set_intr_input:
  assumes "taskqueue_create k \<noteq> None"
  shows "input_size (fst (snd (iichid_set_intr k h hs sc))) =
           (if input_size sc = 0 then uint (wMaxInputLength sc) else input_size sc)"
    and "input_buf (fst (snd (iichid_set_intr k h hs sc))) =
           Some (replicate (nat (if input_size sc = 0 then uint (wMaxInputLength sc)
                                 else input_size sc)) 0)"
    and "fst (iichid_set_intr k h hs sc) = 0"
  using assms
  by (auto simp: iichid_set_intr_def Let_def iichid_setup_interrupt_def iichid_setup_callout_def
      split: prod.splits)

lemma get_report_desc_ok:
  "iichid_get_report_desc hrs (0, desc) sc =
     (0, sc\<lparr>input_size := hrs desc + 2\<rparr>, Some desc,
      [Device_printf ''HID command I2C_HID_REPORT_DESCR at 0x%x with size %d'',
       Device_printf ''HID report descriptor: %*D'']
      @ (if hrs desc + 2 \<noteq> uint (wMaxInputLength sc)
         then [Device_printf
                 ''determined (len=%d) and described (len=%d) input report lengths mismatch'']
         else []))"
  by (simp add: iichid_get_report_desc_def Let_def)

lemma hid_report_size_pen: "hid_report_size pen_descriptor = 7"
  by (simp add: hid_report_size_def pen_descriptor_def var_item_def)

text \<open>
  C6, as amended. After \<open>iichid_get_report_desc\<close> has read the report descriptor, the
  input size is \<open>hid_report_size\<close> of the descriptor plus 2, and \<open>iichid_set_intr\<close>
  allocates an input buffer of that many bytes. When the descriptor has not been read
  (\<open>input_size\<close> is 0) the buffer has \<open>wMaxInputLength\<close> bytes.
\<close>

theorem iichid_input_buffer_size:
  "(0 \<le> hrs desc \<and> taskqueue_create k \<noteq> None \<longrightarrow>
      input_size (fst (snd (iichid_get_report_desc hrs (0, desc) sc))) = hrs desc + 2
      \<and> input_size (fst (snd (iichid_set_intr k h hs
            (fst (snd (iichid_get_report_desc hrs (0, desc) sc)))))) = hrs desc + 2
      \<and> input_buf (fst (snd (iichid_set_intr k h hs
            (fst (snd (iichid_get_report_desc hrs (0, desc) sc))))))
          = Some (replicate (nat (hrs desc + 2)) 0))
   \<and> (taskqueue_create k \<noteq> None \<and> input_size sc = 0 \<longrightarrow>
        input_buf (fst (snd (iichid_set_intr k h hs sc)))
          = Some (replicate (unat (wMaxInputLength sc)) 0))"
proof (intro conjI impI)
  assume a: "0 \<le> hrs desc \<and> taskqueue_create k \<noteq> None"
  let ?sc1 = "fst (snd (iichid_get_report_desc hrs (0, desc) sc))"
  show s1: "input_size ?sc1 = hrs desc + 2"
    by (simp add: get_report_desc_ok)
  from a have nz: "input_size ?sc1 \<noteq> 0" using s1 by simp
  from a have tq: "taskqueue_create k \<noteq> None" by simp
  show "input_size (fst (snd (iichid_set_intr k h hs ?sc1))) = hrs desc + 2"
    using set_intr_input(1) [OF tq, of h hs ?sc1] nz s1 by simp
  show "input_buf (fst (snd (iichid_set_intr k h hs ?sc1))) = Some (replicate (nat (hrs desc + 2)) 0)"
    using set_intr_input(2) [OF tq, of h hs ?sc1] nz s1 by simp
next
  assume a: "taskqueue_create k \<noteq> None \<and> input_size sc = 0"
  then have tq: "taskqueue_create k \<noteq> None" by simp
  have "input_buf (fst (snd (iichid_set_intr k h hs sc)))
      = Some (replicate (nat (uint (wMaxInputLength sc))) 0)"
    using set_intr_input(2) [OF tq, of h hs sc] a by simp
  then show "input_buf (fst (snd (iichid_set_intr k h hs sc)))
      = Some (replicate (unat (wMaxInputLength sc)) 0)"
    by (simp only: unat_eq_nat_uint)
qed

theorem iichid_input_buffer_size_witness:
  "input_size (iichid_attached kernel_irq) = 9
   \<and> input_buf (iichid_attached kernel_irq) = Some (replicate 9 0)
   \<and> input_buf (fst (snd (iichid_set_intr kernel_irq 7 8 (iichid_zero\<lparr>wMaxInputLength := 12\<rparr>))))
       = Some (replicate 12 0)"
proof -
  have tq: "taskqueue_create kernel_irq \<noteq> None" by (simp add: kernel_irq_def)
  have z: "input_size (iichid_zero\<lparr>wMaxInputLength := 12\<rparr>) = 0" by (simp add: iichid_zero_def)
  from iichid_input_buffer_size [of hid_report_size pen_descriptor kernel_irq iichid_zero 7 8]
    tq hid_report_size_pen
  have a: "input_size (iichid_attached kernel_irq) = 9
     \<and> input_buf (iichid_attached kernel_irq) = Some (replicate 9 0)"
    by (simp add: iichid_attached_def)
  from iichid_input_buffer_size
    [of hid_report_size pen_descriptor kernel_irq "iichid_zero\<lparr>wMaxInputLength := 12\<rparr>" 7 8]
    tq z
  have b: "input_buf (fst (snd (iichid_set_intr kernel_irq 7 8 (iichid_zero\<lparr>wMaxInputLength := 12\<rparr>))))
       = Some (replicate 12 0)"
    by simp
  from a b show ?thesis by simp
qed

text \<open>
  The claim as stated, the maximum report size plus 1, fails for the pen descriptor: its
  reports have 7 bytes, and the buffer has 9.
\<close>

theorem iichid_input_buffer_size_counterexample:
  "hid_report_size pen_descriptor + 1 = 8
   \<and> input_size (iichid_attached kernel_irq) = 9
   \<and> map_option length (input_buf (iichid_attached kernel_irq)) = Some 9"
proof -
  have tq: "taskqueue_create kernel_irq \<noteq> None" by (simp add: kernel_irq_def)
  have s: "input_size (fst (snd (iichid_get_report_desc hid_report_size (0, pen_descriptor) iichid_zero))) = 9"
    by (simp add: get_report_desc_ok hid_report_size_pen)
  have "input_size (iichid_attached kernel_irq) = 9"
    unfolding iichid_attached_def using set_intr_input(1) [OF tq] s by simp
  moreover have "input_buf (iichid_attached kernel_irq) = Some (replicate 9 0)"
    unfolding iichid_attached_def using set_intr_input(2) [OF tq] s by simp
  ultimately show ?thesis by (simp add: hid_report_size_pen)
qed

section \<open>The event task\<close>

lemma le16_arith: "le16 data = uint (data ! 0) + 256 * uint (data ! 1)"
proof -
  have "uint (data ! 0) AND push_bit 8 (uint (data ! 1)) = 0"
    by (rule bit_eqI) (auto simp: bit_and_iff bit_push_bit_iff bit_uint_iff)
  then have "uint (data ! 0) + push_bit 8 (uint (data ! 1))
      = uint (data ! 0) OR push_bit 8 (uint (data ! 1))"
    by (rule disjunctive_add_eq_or)
  then show ?thesis by (simp add: le16_def push_bit_eq_mult)
qed

lemma event_task_error:
  "error \<noteq> 0 \<Longrightarrow> 0 < input_size sc \<Longrightarrow>
     iichid_event_task k (error, buf) sc =
       Some (sc, [Device_printf ''could not retrieve input report (%d)'',
                  Device_printf ''an error occured'']
                 @ (if callout_setup sc \<and> sampling_rate sc > 0
                    then [Callout_reset (c_div (hz k) (sampling_rate sc))] else []))"
  by (simp add: iichid_event_task_def iichid_fetch_input_report_def)

lemma event_task_ok:
  "input_buf sc = Some old \<Longrightarrow> 0 < input_size sc \<Longrightarrow> nat (input_size sc) \<le> length old \<Longrightarrow>
   2 \<le> length old \<Longrightarrow> length buf = nat (input_size sc) \<Longrightarrow>
     iichid_event_task k (0, buf) sc =
       Some (sc\<lparr>input_buf := Some (buf @ drop (nat (input_size sc)) old)\<rparr>,
             (if 2 < le16 (buf @ drop (nat (input_size sc)) old)
              then [Intr_handler_call (intr_handler sc) (intr_sc sc)
                      (drop 2 (buf @ drop (nat (input_size sc)) old))
                      (le16 (buf @ drop (nat (input_size sc)) old) - 2)]
              else [])
             @ (if callout_setup sc \<and> sampling_rate sc > 0
                then [Callout_reset (c_div (hz k) (sampling_rate sc))] else []))"
  by (simp add: iichid_event_task_def iichid_fetch_input_report_def Let_def)

lemma iichid_attached_irq:
  "iichid_attached kernel_irq =
     \<lparr>wMaxInputLength = 0, intr_handler = 7, intr_sc = 8,
      input_buf = Some (replicate 9 0), input_size = 9,
      irq_res = Some 2, irq_rid = 0, irq_cookie = Some 3, sampling_rate = - 1,
      callout_setup = False, taskqueue = Some 1\<rparr>"
  by (simp add: iichid_attached_def get_report_desc_ok hid_report_size_pen iichid_zero_def
      kernel_irq_def iichid_set_intr_def iichid_setup_interrupt_def Let_def)

lemma iichid_attached_no_irq:
  "iichid_attached kernel_no_irq =
     \<lparr>wMaxInputLength = 0, intr_handler = 7, intr_sc = 8,
      input_buf = Some (replicate 9 0), input_size = 9,
      irq_res = None, irq_rid = 0, irq_cookie = None, sampling_rate = 60,
      callout_setup = True, taskqueue = Some 1\<rparr>"
  by (simp add: iichid_attached_def get_report_desc_ok hid_report_size_pen iichid_zero_def
      kernel_no_irq_def iichid_set_intr_def iichid_setup_callout_def Let_def)

lemma iichid_late_eq:
  "iichid_late =
     \<lparr>wMaxInputLength = 4, intr_handler = 7, intr_sc = 8,
      input_buf = Some (replicate 4 0), input_size = 9,
      irq_res = Some 2, irq_rid = 0, irq_cookie = Some 3, sampling_rate = - 1,
      callout_setup = False, taskqueue = Some 1\<rparr>"
  by (simp add: iichid_late_def get_report_desc_ok hid_report_size_pen iichid_zero_def
      kernel_irq_def iichid_set_intr_def iichid_setup_interrupt_def Let_def)

text \<open>
  C9, as amended. With a positive \<open>input_size\<close>, a fetch error is printed twice, the
  handler is not called and the state stays as it was. When moreover the input buffer
  that \<open>iichid_set_intr\<close> allocated holds at least \<open>input_size\<close> bytes and at least 2,
  the event task, after a successful read of \<open>input_size\<close> bytes, calls the interrupt
  handler exactly when the leading 2-byte little-endian length is greater than 2; the
  handler then receives the buffer from offset 2 and the length minus 2, and a length of
  at most 2 prints nothing. In each case the polling callout is armed again as before and
  nothing is torn down.
\<close>

theorem iichid_event_task_dispatch:
  "(0 < input_size sc \<and> error \<noteq> 0 \<longrightarrow>
      iichid_event_task k (error, buf) sc =
        Some (sc, [Device_printf ''could not retrieve input report (%d)'',
                   Device_printf ''an error occured'']
                  @ (if callout_setup sc \<and> sampling_rate sc > 0
                     then [Callout_reset (c_div (hz k) (sampling_rate sc))] else [])))
   \<and> (input_buf sc = Some old \<and> 0 < input_size sc \<and> nat (input_size sc) \<le> length old
        \<and> 2 \<le> length old \<and> length buf = nat (input_size sc) \<longrightarrow>
      iichid_event_task k (0, buf) sc =
        Some (sc\<lparr>input_buf := Some (buf @ drop (nat (input_size sc)) old)\<rparr>,
              (if 2 < le16 (buf @ drop (nat (input_size sc)) old)
               then [Intr_handler_call (intr_handler sc) (intr_sc sc)
                       (drop 2 (buf @ drop (nat (input_size sc)) old))
                       (le16 (buf @ drop (nat (input_size sc)) old) - 2)]
               else [])
              @ (if callout_setup sc \<and> sampling_rate sc > 0
                 then [Callout_reset (c_div (hz k) (sampling_rate sc))] else [])))
   \<and> le16 data = uint (data ! 0) + 256 * uint (data ! 1)"
proof (intro conjI impI)
  assume "0 < input_size sc \<and> error \<noteq> 0"
  then show "iichid_event_task k (error, buf) sc =
        Some (sc, [Device_printf ''could not retrieve input report (%d)'',
                   Device_printf ''an error occured'']
                  @ (if callout_setup sc \<and> sampling_rate sc > 0
                     then [Callout_reset (c_div (hz k) (sampling_rate sc))] else []))"
    using event_task_error [of error sc k buf] by simp
next
  assume a: "input_buf sc = Some old \<and> 0 < input_size sc \<and> nat (input_size sc) \<le> length old
      \<and> 2 \<le> length old \<and> length buf = nat (input_size sc)"
  then have old: "input_buf sc = Some old" and pos: "0 < input_size sc"
    and fits: "nat (input_size sc) \<le> length old" and two: "2 \<le> length old"
    and len: "length buf = nat (input_size sc)"
    by simp_all
  show "iichid_event_task k (0, buf) sc =
        Some (sc\<lparr>input_buf := Some (buf @ drop (nat (input_size sc)) old)\<rparr>,
              (if 2 < le16 (buf @ drop (nat (input_size sc)) old)
               then [Intr_handler_call (intr_handler sc) (intr_sc sc)
                       (drop 2 (buf @ drop (nat (input_size sc)) old))
                       (le16 (buf @ drop (nat (input_size sc)) old) - 2)]
               else [])
              @ (if callout_setup sc \<and> sampling_rate sc > 0
                 then [Callout_reset (c_div (hz k) (sampling_rate sc))] else []))"
    by (rule event_task_ok [OF old pos fits two len])
next
  show "le16 data = uint (data ! 0) + 256 * uint (data ! 1)" by (rule le16_arith)
qed

theorem iichid_event_task_dispatch_witness:
  "iichid_event_task kernel_no_irq (0, [5, 0, 1, 2, 3, 0, 0, 0, 0]) (iichid_attached kernel_no_irq)
     = Some ((iichid_attached kernel_no_irq)\<lparr>input_buf := Some [5, 0, 1, 2, 3, 0, 0, 0, 0]\<rparr>,
             [Intr_handler_call 7 8 [1, 2, 3, 0, 0, 0, 0] 3, Callout_reset 16])
   \<and> iichid_event_task kernel_no_irq (0, [2, 0, 1, 2, 3, 0, 0, 0, 0]) (iichid_attached kernel_no_irq)
     = Some ((iichid_attached kernel_no_irq)\<lparr>input_buf := Some [2, 0, 1, 2, 3, 0, 0, 0, 0]\<rparr>,
             [Callout_reset 16])
   \<and> iichid_event_task kernel_no_irq (5, replicate 9 0) (iichid_attached kernel_no_irq)
     = Some (iichid_attached kernel_no_irq,
             [Device_printf ''could not retrieve input report (%d)'',
              Device_printf ''an error occured'', Callout_reset 16])"
proof -
  have b: "input_buf (iichid_attached kernel_no_irq) = Some (replicate 9 0)"
    "input_size (iichid_attached kernel_no_irq) = 9"
    by (simp_all add: iichid_attached_no_irq)
  have f: "intr_handler (iichid_attached kernel_no_irq) = 7"
    "intr_sc (iichid_attached kernel_no_irq) = 8"
    "callout_setup (iichid_attached kernel_no_irq)"
    "sampling_rate (iichid_attached kernel_no_irq) = 60"
    by (simp_all add: iichid_attached_no_irq)
  have h: "hz kernel_no_irq = 1000" by (simp add: kernel_no_irq_def)
  have d: "c_div 1000 60 = 16" by (simp add: c_div_def)
  have l1: "le16 [5, 0, 1, 2, 3, 0, 0, 0, 0] = 5" by (simp add: le16_arith)
  have l2: "le16 [2, 0, 1, 2, 3, 0, 0, 0, 0] = 2" by (simp add: le16_arith)
  from iichid_event_task_dispatch
    [of "iichid_attached kernel_no_irq" 0 kernel_no_irq "[5, 0, 1, 2, 3, 0, 0, 0, 0]"
        "replicate 9 0"] b
  have r1: "iichid_event_task kernel_no_irq (0, [5, 0, 1, 2, 3, 0, 0, 0, 0]) (iichid_attached kernel_no_irq)
     = Some ((iichid_attached kernel_no_irq)\<lparr>input_buf := Some [5, 0, 1, 2, 3, 0, 0, 0, 0]\<rparr>,
             [Intr_handler_call 7 8 [1, 2, 3, 0, 0, 0, 0] 3, Callout_reset 16])"
    by (simp add: f h d l1)
  from iichid_event_task_dispatch
    [of "iichid_attached kernel_no_irq" 0 kernel_no_irq "[2, 0, 1, 2, 3, 0, 0, 0, 0]"
        "replicate 9 0"] b
  have r2: "iichid_event_task kernel_no_irq (0, [2, 0, 1, 2, 3, 0, 0, 0, 0]) (iichid_attached kernel_no_irq)
     = Some ((iichid_attached kernel_no_irq)\<lparr>input_buf := Some [2, 0, 1, 2, 3, 0, 0, 0, 0]\<rparr>,
             [Callout_reset 16])"
    by (simp add: f h d l2)
  from iichid_event_task_dispatch
    [of "iichid_attached kernel_no_irq" 5 kernel_no_irq "replicate 9 0" "replicate 9 0"] b
  have r3: "iichid_event_task kernel_no_irq (5, replicate 9 0) (iichid_attached kernel_no_irq)
     = Some (iichid_attached kernel_no_irq,
             [Device_printf ''could not retrieve input report (%d)'',
              Device_printf ''an error occured'', Callout_reset 16])"
    by (simp add: f h d)
  from r1 r2 r3 show ?thesis by simp
qed

lemma iichid_short_eq:
  "iichid_short =
     \<lparr>wMaxInputLength = 1, intr_handler = 7, intr_sc = 8,
      input_buf = Some (replicate 1 0), input_size = 1,
      irq_res = Some 2, irq_rid = 0, irq_cookie = Some 3, sampling_rate = - 1,
      callout_setup = False, taskqueue = Some 1\<rparr>"
  by (simp add: iichid_short_def iichid_zero_def kernel_irq_def iichid_set_intr_def
      iichid_setup_interrupt_def Let_def)

text \<open>
  The claim as stated fails in two ways. It has a fetch error dropped silently: the
  event task prints two messages. And it speaks of every tick. When \<open>iichid_set_intr\<close>
  ran before the report descriptor was fetched, the buffer has the 4 bytes of
  \<open>wMaxInputLength\<close> and \<open>input_size\<close> is 9 afterwards, so that a successful fetch
  copies 9 bytes into 4; and where \<open>wMaxInputLength\<close> is 1 the buffer has one byte and
  the length field's second byte lies beyond it. In both the task has no defined result.
\<close>

theorem iichid_event_task_dispatch_counterexample:
  "iichid_event_task kernel_irq (5, replicate 9 0) (iichid_attached kernel_irq)
     = Some (iichid_attached kernel_irq,
             [Device_printf ''could not retrieve input report (%d)'',
              Device_printf ''an error occured''])
   \<and> input_buf iichid_late = Some (replicate 4 0)
   \<and> input_size iichid_late = 9
   \<and> iichid_event_task kernel_irq (0, [5, 0, 1, 2, 3, 0, 0, 0, 0]) iichid_late = None
   \<and> input_buf iichid_short = Some (replicate 1 0)
   \<and> input_size iichid_short = 1
   \<and> iichid_event_task kernel_irq (0, [5]) iichid_short = None"
proof -
  have c: "\<not> callout_setup (iichid_attached kernel_irq)"
    and p: "0 < input_size (iichid_attached kernel_irq)"
    by (simp_all add: iichid_attached_irq)
  have e: "iichid_event_task kernel_irq (5, replicate 9 0) (iichid_attached kernel_irq)
     = Some (iichid_attached kernel_irq,
             [Device_printf ''could not retrieve input report (%d)'',
              Device_printf ''an error occured''])"
    using event_task_error [of 5 "iichid_attached kernel_irq" kernel_irq "replicate 9 0"] c p
    by simp
  have l: "input_buf iichid_late = Some (replicate 4 0)" "input_size iichid_late = 9"
    by (simp_all add: iichid_late_eq)
  have n: "iichid_event_task kernel_irq (0, [5, 0, 1, 2, 3, 0, 0, 0, 0]) iichid_late = None"
    by (simp add: iichid_event_task_def iichid_fetch_input_report_def l)
  have s: "input_buf iichid_short = Some (replicate 1 0)" "input_size iichid_short = 1"
    by (simp_all add: iichid_short_eq)
  have m: "iichid_event_task kernel_irq (0, [5]) iichid_short = None"
    by (simp add: iichid_event_task_def iichid_fetch_input_report_def s)
  from e l n s m show ?thesis by simp
qed

section \<open>Destroying the transport\<close>

text \<open>
  C7. \<open>iichid_destroy\<close> leaves \<open>input_buf\<close>, \<open>irq_res\<close> and \<open>taskqueue\<close> as they
  were, so a second call on the attached transport frees the input buffer, releases the
  IRQ resource and frees the task queue a second time.
\<close>

theorem iichid_destroy_twice:
  "input_buf (fst (iichid_destroy sc)) = input_buf sc
   \<and> irq_res (fst (iichid_destroy sc)) = irq_res sc
   \<and> taskqueue (fst (iichid_destroy sc)) = taskqueue sc
   \<and> snd (iichid_destroy (iichid_attached kernel_irq)) =
       [Free_input_buf, Callout_stop, Device_printf ''tore callout down'',
        Bus_teardown_intr 3, Bus_release_resource 0 2,
        Taskqueue_block 1, Taskqueue_drain 1, Taskqueue_free 1]
   \<and> snd (iichid_destroy (fst (iichid_destroy (iichid_attached kernel_irq)))) =
       [Free_input_buf, Callout_stop, Device_printf ''tore callout down'',
        Bus_release_resource 0 2, Taskqueue_block 1, Taskqueue_drain 1, Taskqueue_free 1]"
proof -
  have kept: "input_buf (fst (iichid_destroy sc)) = input_buf sc
      \<and> irq_res (fst (iichid_destroy sc)) = irq_res sc
      \<and> taskqueue (fst (iichid_destroy sc)) = taskqueue sc"
    by (simp add: iichid_destroy_def iichid_teardown_callout_def iichid_teardown_interrupt_def
        Let_def)
  have once: "snd (iichid_destroy (iichid_attached kernel_irq)) =
       [Free_input_buf, Callout_stop, Device_printf ''tore callout down'',
        Bus_teardown_intr 3, Bus_release_resource 0 2,
        Taskqueue_block 1, Taskqueue_drain 1, Taskqueue_free 1]"
    by (simp add: iichid_destroy_def iichid_teardown_callout_def iichid_teardown_interrupt_def
        iichid_attached_irq Let_def)
  have twice: "snd (iichid_destroy (fst (iichid_destroy (iichid_attached kernel_irq)))) =
       [Free_input_buf, Callout_stop, Device_printf ''tore callout down'',
        Bus_release_resource 0 2, Taskqueue_block 1, Taskqueue_drain 1, Taskqueue_free 1]"
    by (simp add: iichid_destroy_def iichid_teardown_callout_def iichid_teardown_interrupt_def
        iichid_attached_irq Let_def)
  from kept once twice show ?thesis by simp
qed

section \<open>The polling invariant\<close>

lemma set_intr_inv:
  assumes "0 \<le> IICHID_DEFAULT_SAMPLING_RATE k" and "fst (iichid_set_intr k h hs sc) = 0"
  shows "polling_inv (fst (snd (iichid_set_intr k h hs sc)))"
    and "irq_res (fst (snd (iichid_set_intr k h hs sc))) = bus_alloc_resource_any k"
    and "bus_alloc_resource_any k = None \<longrightarrow>
           sampling_rate (fst (snd (iichid_set_intr k h hs sc))) = IICHID_DEFAULT_SAMPLING_RATE k"
  using assms
  by (auto simp: iichid_set_intr_def Let_def iichid_setup_interrupt_def iichid_setup_callout_def
      polling_inv_def ENXIO_def split: prod.splits if_splits)

lemma sysctl_reject:
  "irq_res sc = None \<Longrightarrow> v < 0 \<Longrightarrow>
     iichid_sysctl_sampling_rate_handler k err (Some v) sc = (err, sc, [])"
  by (simp add: iichid_sysctl_sampling_rate_handler_def Let_def)

lemma sysctl_inv:
  "polling_inv sc \<Longrightarrow>
     polling_inv (fst (snd (iichid_sysctl_sampling_rate_handler k err newptr sc)))"
  by (auto simp: iichid_sysctl_sampling_rate_handler_def Let_def polling_inv_def
      iichid_setup_interrupt_def iichid_setup_callout_def iichid_teardown_callout_def
      iichid_teardown_interrupt_def split: prod.splits option.splits if_splits)

lemma polling_inv_event_task:
  "polling_inv s \<Longrightarrow> iichid_event_task k x s = Some (s', evs) \<Longrightarrow> polling_inv s'"
  by (auto simp: polling_inv_def iichid_event_task_def iichid_fetch_input_report_def Let_def
      split: prod.splits option.splits if_splits)

lemma polling_inv_get_report_desc:
  "polling_inv s \<Longrightarrow> polling_inv (fst (snd (iichid_get_report_desc hrs x s)))"
  by (auto simp: polling_inv_def iichid_get_report_desc_def Let_def split: prod.splits)

lemma polling_inv_destroy:
  "polling_inv s \<Longrightarrow> polling_inv (fst (iichid_destroy s))"
  by (simp add: polling_inv_def iichid_destroy_def iichid_teardown_callout_def
      iichid_teardown_interrupt_def Let_def)

text \<open>
  C10. When the default sampling rate is not negative, \<open>iichid_set_intr\<close> establishes
  the polling invariant, by the default rate when no IRQ resource is allocated; the
  sysctl handler rejects a negative rate while there is no IRQ resource, leaving the
  state as it was, and preserves the invariant, as do the event task,
  \<open>iichid_get_report_desc\<close> and \<open>iichid_destroy\<close>.
\<close>

theorem iichid_polling_invariant:
  "(0 \<le> IICHID_DEFAULT_SAMPLING_RATE k \<and> fst (iichid_set_intr k h hs sc) = 0 \<longrightarrow>
      polling_inv (fst (snd (iichid_set_intr k h hs sc)))
      \<and> (bus_alloc_resource_any k = None \<longrightarrow>
           irq_res (fst (snd (iichid_set_intr k h hs sc))) = None
           \<and> sampling_rate (fst (snd (iichid_set_intr k h hs sc)))
               = IICHID_DEFAULT_SAMPLING_RATE k))
   \<and> (irq_res s = None \<and> v < 0 \<longrightarrow>
        iichid_sysctl_sampling_rate_handler k err (Some v) s = (err, s, []))
   \<and> (polling_inv s \<longrightarrow>
        polling_inv (fst (snd (iichid_sysctl_sampling_rate_handler k err newptr s))))
   \<and> (polling_inv s \<and> iichid_event_task k x s = Some (s', evs) \<longrightarrow> polling_inv s')
   \<and> (polling_inv s \<longrightarrow> polling_inv (fst (snd (iichid_get_report_desc hrs d s))))
   \<and> (polling_inv s \<longrightarrow> polling_inv (fst (iichid_destroy s)))"
proof (intro conjI impI)
  assume a: "0 \<le> IICHID_DEFAULT_SAMPLING_RATE k \<and> fst (iichid_set_intr k h hs sc) = 0"
  then have d: "0 \<le> IICHID_DEFAULT_SAMPLING_RATE k" and r: "fst (iichid_set_intr k h hs sc) = 0"
    by simp_all
  show "polling_inv (fst (snd (iichid_set_intr k h hs sc)))"
    using d r by (rule set_intr_inv(1))
  assume n: "bus_alloc_resource_any k = None"
  show "irq_res (fst (snd (iichid_set_intr k h hs sc))) = None"
    using set_intr_inv(2) [OF d r] n by simp
  show "sampling_rate (fst (snd (iichid_set_intr k h hs sc))) = IICHID_DEFAULT_SAMPLING_RATE k"
    using set_intr_inv(3) [OF d r] n by simp
next
  assume "irq_res s = None \<and> v < 0"
  then show "iichid_sysctl_sampling_rate_handler k err (Some v) s = (err, s, [])"
    by (simp add: sysctl_reject)
next
  assume "polling_inv s"
  then show "polling_inv (fst (snd (iichid_sysctl_sampling_rate_handler k err newptr s)))"
    by (rule sysctl_inv)
next
  assume "polling_inv s \<and> iichid_event_task k x s = Some (s', evs)"
  then show "polling_inv s'"
    using polling_inv_event_task by blast
next
  assume "polling_inv s"
  then show "polling_inv (fst (snd (iichid_get_report_desc hrs d s)))"
    by (rule polling_inv_get_report_desc)
next
  assume "polling_inv s"
  then show "polling_inv (fst (iichid_destroy s))"
    by (rule polling_inv_destroy)
qed

theorem iichid_polling_invariant_witness:
  "polling_inv (iichid_attached kernel_no_irq)
   \<and> irq_res (iichid_attached kernel_no_irq) = None
   \<and> sampling_rate (iichid_attached kernel_no_irq) = 60
   \<and> iichid_sysctl_sampling_rate_handler kernel_no_irq 0 (Some (- 1)) (iichid_attached kernel_no_irq)
       = (0, iichid_attached kernel_no_irq, [])
   \<and> polling_inv (fst (snd (iichid_sysctl_sampling_rate_handler kernel_no_irq 0 (Some 30)
        (iichid_attached kernel_no_irq))))
   \<and> polling_inv (fst (iichid_destroy (iichid_attached kernel_no_irq)))"
proof -
  let ?sc1 = "fst (snd (iichid_get_report_desc hid_report_size (0, pen_descriptor) iichid_zero))"
  have d: "0 \<le> IICHID_DEFAULT_SAMPLING_RATE kernel_no_irq"
    and n: "bus_alloc_resource_any kernel_no_irq = None"
    and q: "IICHID_DEFAULT_SAMPLING_RATE kernel_no_irq = 60"
    by (simp_all add: kernel_no_irq_def)
  have tq: "taskqueue_create kernel_no_irq \<noteq> None" by (simp add: kernel_no_irq_def)
  have r: "fst (iichid_set_intr kernel_no_irq 7 8 ?sc1) = 0"
    using tq by (rule set_intr_input(3))
  note t1 = iichid_polling_invariant
    [of kernel_no_irq 7 8 ?sc1 "iichid_attached kernel_no_irq" "- 1" 0 "Some 30"
        "(0, [])" iichid_zero "[]" hid_report_size "(0, pen_descriptor)"]
  from t1 d r n q have inv: "polling_inv (iichid_attached kernel_no_irq)"
    and ir: "irq_res (iichid_attached kernel_no_irq) = None"
    and sr: "sampling_rate (iichid_attached kernel_no_irq) = 60"
    unfolding iichid_attached_def by simp_all
  from t1 ir have rej: "iichid_sysctl_sampling_rate_handler kernel_no_irq 0 (Some (- 1))
      (iichid_attached kernel_no_irq) = (0, iichid_attached kernel_no_irq, [])"
    by simp
  from t1 inv have pres: "polling_inv (fst (snd (iichid_sysctl_sampling_rate_handler kernel_no_irq 0
      (Some 30) (iichid_attached kernel_no_irq))))"
    by blast
  from t1 inv have des: "polling_inv (fst (iichid_destroy (iichid_attached kernel_no_irq)))"
    by blast
  from inv ir sr rej pres des show ?thesis by simp
qed

end
